theory Spec2Isabelle
  imports Main "HOL-Library.AList"
begin

section \<open>Tensors, devices and errors\<close>

text \<open>
  The reaction network of bondnet works on 2D feature tensors attached to the node types
  of batched heterogeneous graphs. A tensor is modelled by the device that holds it, its
  number of columns (\<open>shape[1]\<close>, which a tensor without rows still has) and its rows.
  The entries are elements of an abelian group: the arithmetic of the model is exact, the
  rounding of floating point numbers is outside of it.

  Every \<open>raise\<close> and failed \<open>assert\<close> of the source, and every failure of a
  torch or DGL operation the source calls, is a value \<open>Inl e\<close>.
\<close>

datatype device = CPU | CUDA nat

datatype error = AssertionError | IndexError | KeyError | TypeError | RuntimeError | DGLError

record 'a tensor =
  tdevice :: device
  ncols :: nat
  rws :: "'a list list"

definition nrows :: "'a tensor \<Rightarrow> nat" where
  "nrows t = length (rws t)"

definition wf_tensor :: "'a tensor \<Rightarrow> bool" where
  "wf_tensor t = list_all (\<lambda>r. length r = ncols t) (rws t)"

text \<open>\<open>t.new_zeros((n, d))\<close>: zeros on the device of \<open>t\<close>.\<close>

definition new_zeros :: "'a::ab_group_add tensor \<Rightarrow> nat \<Rightarrow> nat \<Rightarrow> 'a tensor" where
  "new_zeros t n d = \<lparr>tdevice = tdevice t, ncols = d, rws = replicate n (replicate d 0)\<rparr>"

text \<open>
  \<open>torch.cat(ts)\<close> along dimension 0: fails on an empty list, and when the tensors
  differ in their number of columns or in their device.
\<close>

fun torch_cat :: "'a tensor list \<Rightarrow> error + 'a tensor" where
  "torch_cat [] = Inl RuntimeError"
| "torch_cat (t # ts) =
     (if list_all (\<lambda>u. tdevice u = tdevice t \<and> ncols u = ncols t) ts
      then Inr \<lparr>tdevice = tdevice t, ncols = ncols t, rws = concat (map rws (t # ts))\<rparr>
      else Inl RuntimeError)"

text \<open>\<open>torch.sum(t, dim=0, keepdim=True)\<close>: one row, the sum of the rows of \<open>t\<close>.\<close>

definition add_row :: "'a::ab_group_add list \<Rightarrow> 'a list \<Rightarrow> 'a list" where
  "add_row acc r = map2 (+) acc r"

definition torch_sum0 :: "'a::ab_group_add tensor \<Rightarrow> 'a tensor" where
  "torch_sum0 t =
     \<lparr>tdevice = tdevice t, ncols = ncols t,
      rws = [foldl add_row (replicate (ncols t) 0) (rws t)]\<rparr>"

text \<open>
  An index of Python and of torch: \<open>i\<close> in \<open>[0, n)\<close> is itself, \<open>i\<close> in
  \<open>[-n, 0)\<close> counts from the end, anything else is out of range.
\<close>

definition py_index :: "nat \<Rightarrow> int \<Rightarrow> nat option" where
  "py_index n i =
     (if 0 \<le> i \<and> i < int n then Some (nat i)
      else if - int n \<le> i \<and> i < 0 then Some (nat (int n + i))
      else None)"

definition py_get :: "'b list \<Rightarrow> int \<Rightarrow> error + 'b" where
  "py_get xs i = (case py_index (length xs) i of None \<Rightarrow> Inl IndexError | Some k \<Rightarrow> Inr (xs ! k))"

text \<open>\<open>t[m]\<close> for a list \<open>m\<close> of integers: the rows of \<open>t\<close> the list names, in its order.\<close>

definition index_rows :: "'a tensor \<Rightarrow> int list \<Rightarrow> error + 'a tensor" where
  "index_rows t m =
     (if list_all (\<lambda>i. py_index (nrows t) i \<noteq> None) m
      then Inr (t\<lparr>rws := map (\<lambda>i. rws t ! the (py_index (nrows t) i)) m\<rparr>)
      else Inl IndexError)"

text \<open>
  \<open>p - r\<close> with the broadcasting of torch: in each dimension the sizes are equal or one
  of them is 1, and a dimension of size 1 is repeated.
\<close>

definition bcast :: "nat \<Rightarrow> nat \<Rightarrow> nat option" where
  "bcast a b = (if a = b then Some a else if a = 1 then Some b else if b = 1 then Some a else None)"

definition entry :: "'a tensor \<Rightarrow> nat \<Rightarrow> nat \<Rightarrow> 'a" where
  "entry t i j = rws t ! (if nrows t = 1 then 0 else i) ! (if ncols t = 1 then 0 else j)"

definition tensor_sub :: "'a::ab_group_add tensor \<Rightarrow> 'a tensor \<Rightarrow> error + 'a tensor" where
  "tensor_sub p r =
     (if tdevice p \<noteq> tdevice r then Inl RuntimeError
      else case bcast (nrows p) (nrows r) of
        None \<Rightarrow> Inl RuntimeError
      | Some n \<Rightarrow>
         (case bcast (ncols p) (ncols r) of
            None \<Rightarrow> Inl RuntimeError
          | Some d \<Rightarrow>
              Inr \<lparr>tdevice = tdevice p, ncols = d,
                   rws = map (\<lambda>i. map (\<lambda>j. entry p i j - entry r i j) [0..<d]) [0..<n]\<rparr>))"

text \<open>\<open>itertools.compress(data, selectors)\<close>: stops with the shorter of the two.\<close>

fun compress :: "'b list \<Rightarrow> bool list \<Rightarrow> 'b list" where
  "compress (x # xs) (b # bs) = (if b then x # compress xs bs else compress xs bs)"
| "compress _ _ = []"

text \<open>A list comprehension whose elements may raise: the first error ends it.\<close>

fun collect :: "(error + 'b) list \<Rightarrow> error + 'b list" where
  "collect [] = Inr []"
| "collect (x # xs) =
     (case x of
        Inl e \<Rightarrow> Inl e
      | Inr v \<Rightarrow> (case collect xs of Inl e \<Rightarrow> Inl e | Inr vs \<Rightarrow> Inr (v # vs)))"

section \<open>Graphs\<close>

text \<open>
  A (batched) heterogeneous graph of DGL: its device, the connectivity of each member
  graph (abstract, of type \<open>'g\<close>), for each node type the number of nodes of each member
  (\<open>batch_num_nodes\<close>), and for each node type the tensor stored under the key \<open>ft\<close>,
  the only entry of the node data that \<open>gated_reaction_network.py\<close> reads or writes.
  A single molecule graph is a batch of one member.
\<close>

record ('g, 'a) graph =
  gdevice :: device
  topologies :: "'g list"
  batch_num_nodes :: "(string \<times> nat list) list"
  ndata_ft :: "(string \<times> 'a tensor) list"

text \<open>\<open>p.nodes[nt].data[ft_name]\<close>: DGL rejects an unknown node type, the dict a missing key.\<close>

definition node_ft :: "('g, 'a) graph \<Rightarrow> string \<Rightarrow> error + 'a tensor" where
  "node_ft p nt =
     (case map_of (batch_num_nodes p) nt of
        None \<Rightarrow> Inl DGLError
      | Some _ \<Rightarrow> (case map_of (ndata_ft p) nt of None \<Rightarrow> Inl KeyError | Some t \<Rightarrow> Inr t))"

section \<open>\<open>create_rxn_graph\<close>\<close>

record has_bonds =
  hb_reactants :: "bool list"
  hb_products :: "bool list"

text \<open>
  The loop over the node types of \<open>create_rxn_graph\<close>, in two steps. \<open>cat_feats\<close>
  is the first half of the body: it gathers the feature tensors of the reactants and of
  the products, for the type \<open>bond\<close> keeps the products that have bonds and appends
  a row of zeros, and concatenates both lists. It returns \<open>(reactants_ft, products_ft)\<close>.
\<close>

definition cat_feats ::
  "string \<Rightarrow> ('g, 'a::ab_group_add) graph list \<Rightarrow> ('g, 'a) graph list \<Rightarrow> has_bonds \<Rightarrow>
   error + ('a tensor \<times> 'a tensor)" where
  "cat_feats nt reactants products hb =
     (case collect (map (\<lambda>p. node_ft p nt) reactants) of
        Inl e \<Rightarrow> Inl e
      | Inr reactants_ft \<Rightarrow>
     (case collect (map (\<lambda>p. node_ft p nt) products) of
        Inl e \<Rightarrow> Inl e
      | Inr products_ft \<Rightarrow>
     (case (if nt = ''bond''
            then (case reactants_ft of
                    [] \<Rightarrow> Inl IndexError
                  | r0 # _ \<Rightarrow>
                      Inr (compress products_ft (hb_products hb) @ [new_zeros r0 1 (ncols r0)]))
            else Inr products_ft) of
        Inl e \<Rightarrow> Inl e
      | Inr products_ft \<Rightarrow>
     (case torch_cat reactants_ft of
        Inl e \<Rightarrow> Inl e
      | Inr reactants_ft \<Rightarrow>
     (case torch_cat products_ft of
        Inl e \<Rightarrow> Inl e
      | Inr products_ft \<Rightarrow> Inr (reactants_ft, products_ft))))))"

text \<open>
  The second half of the body: pooling for the type \<open>global\<close>, the length check and
  the reordering by \<open>mappings[nt]\<close> for every other type, then the difference. The
  result is the value stored in \<open>feats[nt]\<close>, or the error raised on the way.
\<close>

definition rxn_node_ft ::
  "string \<Rightarrow> ('g, 'a::ab_group_add) graph list \<Rightarrow> ('g, 'a) graph list \<Rightarrow>
   (string \<times> int list) list \<Rightarrow> has_bonds \<Rightarrow> error + 'a tensor" where
  "rxn_node_ft nt reactants products mappings hb =
     (case cat_feats nt reactants products hb of
        Inl e \<Rightarrow> Inl e
      | Inr (reactants_ft, products_ft) \<Rightarrow>
         if nt = ''global''
         then tensor_sub (torch_sum0 products_ft) (torch_sum0 reactants_ft)
         else (case map_of mappings nt of
                 None \<Rightarrow> Inl KeyError
               | Some m \<Rightarrow>
                   if nrows products_ft \<noteq> length m then Inl AssertionError
                   else (case index_rows products_ft m of
                           Inl e \<Rightarrow> Inl e
                         | Inr products_ft \<Rightarrow> tensor_sub products_ft reactants_ft)))"

fun rxn_feats ::
  "string list \<Rightarrow> ('g, 'a::ab_group_add) graph list \<Rightarrow> ('g, 'a) graph list \<Rightarrow>
   (string \<times> int list) list \<Rightarrow> has_bonds \<Rightarrow> (string \<times> 'a tensor) list \<Rightarrow>
   error + (string \<times> 'a tensor) list" where
  "rxn_feats [] reactants products mappings hb feats = Inr feats"
| "rxn_feats (nt # nts) reactants products mappings hb feats =
     (case rxn_node_ft nt reactants products mappings hb of
        Inl e \<Rightarrow> Inl e
      | Inr t \<Rightarrow> rxn_feats nts reactants products mappings hb (AList.update nt t feats))"

definition create_rxn_graph ::
  "('g, 'a::ab_group_add) graph list \<Rightarrow> ('g, 'a) graph list \<Rightarrow> (string \<times> int list) list \<Rightarrow>
   has_bonds \<Rightarrow> string list \<Rightarrow> error + (('g, 'a) graph \<times> (string \<times> 'a tensor) list)" where
  "create_rxn_graph reactants products mappings hb ntypes =
     (case reactants of
        [graph] \<Rightarrow>
          (case rxn_feats ntypes reactants products mappings hb [] of
             Inl e \<Rightarrow> Inl e
           | Inr feats \<Rightarrow> Inr (graph, feats))
      | _ \<Rightarrow> Inl AssertionError)"

section \<open>Batching, devices and node data\<close>

type_synonym 'a feats = "(string \<times> 'a tensor) list"



text \<open>
  Graph objects are mutable and may be shared, so they live in a store, a list of graphs
  in which an object is known by its position.

  \<open>graph.to(device)\<close> makes a copy of the graph \<open>r\<close> whose node data is moved to the
  device, and fails when the machine has no such device; \<open>ncuda\<close> is the number of CUDA
  devices of the machine. DGL returns the graph itself only when the device it is given
  equals the device of the graph. The source gives the device as the string
  \<open>'cuda:0'\<close>, which a device never equals, so that the copy is made even for a
  graph that is on \<open>cuda:0\<close>. The result is the store with the new object, and its
  position.
\<close>

type_synonym ('g, 'a) store = "('g, 'a) graph list"

definition device_available :: "nat \<Rightarrow> device \<Rightarrow> bool" where
  "device_available ncuda d = (case d of CPU \<Rightarrow> True | CUDA k \<Rightarrow> k < ncuda)"

definition graph_to ::
  "nat \<Rightarrow> ('g, 'a) store \<Rightarrow> nat \<Rightarrow> device \<Rightarrow> error + (('g, 'a) store \<times> nat)" where
  "graph_to ncuda st r d =
     (if device_available ncuda d
      then Inr (st @ [(st ! r)\<lparr>gdevice := d,
                               ndata_ft := map (\<lambda>(nt, t). (nt, t\<lparr>tdevice := d\<rparr>)) (ndata_ft (st ! r))\<rparr>],
                length st)
      else Inl DGLError)"

text \<open>
  \<open>graph.nodes[nt].data.update({"ft": ft})\<close>: DGL rejects an unknown node type, a
  tensor whose number of rows is not the number of nodes of the type, and a tensor on
  another device than the graph.
\<close>

definition set_node_ft :: "('g, 'a) graph \<Rightarrow> string \<Rightarrow> 'a tensor \<Rightarrow> error + ('g, 'a) graph" where
  "set_node_ft g nt ft =
     (case map_of (batch_num_nodes g) nt of
        None \<Rightarrow> Inl DGLError
      | Some cs \<Rightarrow>
          if nrows ft \<noteq> sum_list cs then Inl DGLError
          else if tdevice ft \<noteq> gdevice g then Inl DGLError
          else Inr (g\<lparr>ndata_ft := AList.update nt ft (ndata_ft g)\<rparr>))"

text \<open>
  The loop \<open>for nt, ft in feats.items()\<close> that assigns the features to the graph object
  \<open>w\<close>. It mutates the object: the result is the store after the loop, and the error
  if one was raised.
\<close>

fun assign_feats :: "'a feats \<Rightarrow> ('g, 'a) store \<Rightarrow> nat \<Rightarrow> ('g, 'a) store \<times> error option" where
  "assign_feats [] st w = (st, None)"
| "assign_feats ((nt, ft) # rest) st w =
     (case set_node_ft (st ! w) nt ft of
        Inl e \<Rightarrow> (st, Some e)
      | Inr g' \<Rightarrow> assign_feats rest (st[w := g']) w)"

text \<open>
  \<open>dgl.unbatch(graph)\<close>: one graph per member, each with its own node counts and its
  own slice of the rows of every node type.
\<close>

definition first_count :: "(string \<times> nat list) list \<Rightarrow> string \<Rightarrow> nat" where
  "first_count bnn nt = (case map_of bnn nt of Some (c # _) \<Rightarrow> c | _ \<Rightarrow> 0)"

fun unbatch_members ::
  "device \<Rightarrow> 'g list \<Rightarrow> (string \<times> nat list) list \<Rightarrow> 'a feats \<Rightarrow> ('g, 'a) graph list" where
  "unbatch_members d [] bnn fts = []"
| "unbatch_members d (tp # tps) bnn fts =
     \<lparr>gdevice = d, topologies = [tp],
      batch_num_nodes = map (\<lambda>(nt, cs). (nt, take 1 cs)) bnn,
      ndata_ft = map (\<lambda>(nt, t). (nt, t\<lparr>rws := take (first_count bnn nt) (rws t)\<rparr>)) fts\<rparr>
     # unbatch_members d tps (map (\<lambda>(nt, cs). (nt, drop 1 cs)) bnn)
         (map (\<lambda>(nt, t). (nt, t\<lparr>rws := drop (first_count bnn nt) (rws t)\<rparr>)) fts)"

definition unbatch :: "('g, 'a) graph \<Rightarrow> ('g, 'a) graph list" where
  "unbatch g = unbatch_members (gdevice g) (topologies g) (batch_num_nodes g) (ndata_ft g)"

text \<open>
  \<open>torch.cat([ft[nt] for ft in fts])\<close> over a list of dicts; \<open>err\<close> is the error of a
  missing key.
\<close>

definition cat_key :: "error \<Rightarrow> 'a feats list \<Rightarrow> string \<Rightarrow> error + (string \<times> 'a tensor)" where
  "cat_key err fts nt =
     (case collect (map (\<lambda>ft. case map_of ft nt of None \<Rightarrow> Inl err | Some t \<Rightarrow> Inr t) fts) of
        Inl e \<Rightarrow> Inl e
      | Inr ts \<Rightarrow> (case torch_cat ts of Inl e \<Rightarrow> Inl e | Inr t \<Rightarrow> Inr (nt, t)))"

text \<open>
  \<open>dgl.batch(graphs)\<close>: rejects an empty list; the members, their node counts and the
  node data of the graphs are concatenated in the order of the list.
\<close>

definition batch :: "('g, 'a) graph list \<Rightarrow> error + ('g, 'a) graph" where
  "batch gs =
     (case gs of
        [] \<Rightarrow> Inl DGLError
      | g0 # _ \<Rightarrow>
          (case collect (map (cat_key DGLError (map ndata_ft gs)) (map fst (ndata_ft g0))) of
             Inl e \<Rightarrow> Inl e
           | Inr fts \<Rightarrow>
               Inr \<lparr>gdevice = gdevice g0,
                    topologies = concat (map topologies gs),
                    batch_num_nodes =
                      map (\<lambda>(nt, _). (nt, concat (map (\<lambda>g. case map_of (batch_num_nodes g) nt of
                                                            None \<Rightarrow> [] | Some cs \<Rightarrow> cs) gs)))
                          (batch_num_nodes g0),
                    ndata_ft = fts\<rparr>))"

section \<open>\<open>mol_graph_to_rxn_graph\<close>\<close>

text \<open>
  A reaction of \<open>bondnet.data.reaction_network\<close>, with the attributes that
  \<open>mol_graph_to_rxn_graph\<close> reads: the indices of the reactants and of the products in
  the batch, the bond mapping of each product (a dict, of which only the size is read)
  and the two mappings as lists. The class is not part of the modelled file; its
  attributes are taken as given.
\<close>

record reaction =
  rxn_reactants :: "int list"
  rxn_products :: "int list"
  bond_mapping :: "(int \<times> int) list list"
  atom_mapping_as_list :: "int list"
  bond_mapping_as_list :: "int list"

text \<open>The body of the loop over the reactions.\<close>

definition rxn_graph_of ::
  "('g, 'a::ab_group_add) graph list \<Rightarrow> string list \<Rightarrow> reaction \<Rightarrow>
   error + (('g, 'a) graph \<times> 'a feats)" where
  "rxn_graph_of graphs ntypes rxn =
     (case collect (map (py_get graphs) (rxn_reactants rxn)) of
        Inl e \<Rightarrow> Inl e
      | Inr reactants \<Rightarrow>
     (case collect (map (py_get graphs) (rxn_products rxn)) of
        Inl e \<Rightarrow> Inl e
      | Inr products \<Rightarrow>
          create_rxn_graph reactants products
            [(''atom'', atom_mapping_as_list rxn), (''bond'', bond_mapping_as_list rxn)]
            \<lparr>hb_reactants = map (\<lambda>_. True) reactants,
             hb_products = map (\<lambda>mp. length mp > 0) (bond_mapping rxn)\<rparr>
            ntypes))"

text \<open>
  Everything after the features are assigned: unbatching, the loop over the reactions,
  and the batching of the reaction graphs and of their features.
\<close>

definition build_rxn_graphs ::
  "('g, 'a::ab_group_add) graph \<Rightarrow> string list \<Rightarrow> reaction list \<Rightarrow>
   error + (('g, 'a) graph \<times> 'a feats)" where
  "build_rxn_graphs graph ntypes reactions =
     (case collect (map (rxn_graph_of (unbatch graph) ntypes) reactions) of
        Inl e \<Rightarrow> Inl e
      | Inr res \<Rightarrow>
     (case batch (map fst res) of
        Inl e \<Rightarrow> Inl e
      | Inr batched_graph \<Rightarrow>
     (case collect (map (cat_key KeyError (map snd res)) ntypes) of
        Inl e \<Rightarrow> Inl e
      | Inr batched_feats \<Rightarrow> Inr (batched_graph, batched_feats))))"

text \<open>
  \<open>mol_graph_to_rxn_graph\<close>. The graph of the caller is the object at position 0 of a
  store that holds nothing else; \<open>graph.to('cuda:0')\<close> adds the graph the function
  works on. The first component of the result is the graph of the caller as the call
  leaves it, the second component is the value returned, or the error raised.
\<close>

definition mol_graph_to_rxn_graph ::
  "nat \<Rightarrow> ('g, 'a::ab_group_add) graph \<Rightarrow> 'a feats \<Rightarrow> reaction list \<Rightarrow>
   ('g, 'a) graph \<times> (error + (('g, 'a) graph \<times> 'a feats))" where
  "mol_graph_to_rxn_graph ncuda graph feats reactions =
     (case graph_to ncuda [graph] 0 (CUDA 0) of
        Inl e \<Rightarrow> (graph, Inl e)
      | Inr (st, w) \<Rightarrow>
          (case assign_feats feats st w of
             (st', err) \<Rightarrow>
               (st' ! 0,
                case err of
                  Some e \<Rightarrow> Inl e
                | None \<Rightarrow> build_rxn_graphs (st' ! w) (map fst feats) reactions)))"

section \<open>The network\<close>

text \<open>
  The layers of \<open>GatedGCNReactionNetwork\<close> are built by its base class from learned
  parameters; here they are parameters of the model. \<open>'n\<close> is the type of the graph norms.
\<close>

record ('g, 'a, 'n) network =
  embedding :: "'a feats \<Rightarrow> error + 'a feats"
  gated_layers :: "(('g, 'a) graph \<Rightarrow> 'a feats \<Rightarrow> 'n \<Rightarrow> 'n \<Rightarrow> error + 'a feats) list"
  readout_layer :: "('g, 'a) graph \<Rightarrow> 'a feats \<Rightarrow> error + 'a tensor"
  fc_layers :: "('a tensor \<Rightarrow> error + 'a tensor) list"

fun run_gated ::
  "(('g, 'a) graph \<Rightarrow> 'a feats \<Rightarrow> 'n \<Rightarrow> 'n \<Rightarrow> error + 'a feats) list \<Rightarrow>
   ('g, 'a) graph \<Rightarrow> 'a feats \<Rightarrow> 'n \<Rightarrow> 'n \<Rightarrow> error + 'a feats" where
  "run_gated [] graph feats norm_atom norm_bond = Inr feats"
| "run_gated (layer # layers) graph feats norm_atom norm_bond =
     (case layer graph feats norm_atom norm_bond of
        Inl e \<Rightarrow> Inl e
      | Inr feats' \<Rightarrow> run_gated layers graph feats' norm_atom norm_bond)"

fun run_fc :: "('a tensor \<Rightarrow> error + 'a tensor) list \<Rightarrow> 'a tensor \<Rightarrow> error + 'a tensor" where
  "run_fc [] feats = Inr feats"
| "run_fc (layer # layers) feats =
     (case layer feats of Inl e \<Rightarrow> Inl e | Inr feats' \<Rightarrow> run_fc layers feats')"

definition feature_before_fc ::
  "('g, 'a::ab_group_add, 'n) network \<Rightarrow> nat \<Rightarrow> ('g, 'a) graph \<Rightarrow> 'a feats \<Rightarrow> reaction list \<Rightarrow>
   'n \<Rightarrow> 'n \<Rightarrow> error + 'a tensor" where
  "feature_before_fc net ncuda graph feats reactions norm_atom norm_bond =
     (case embedding net feats of
        Inl e \<Rightarrow> Inl e
      | Inr feats \<Rightarrow>
     (case run_gated (gated_layers net) graph feats norm_atom norm_bond of
        Inl e \<Rightarrow> Inl e
      | Inr feats \<Rightarrow>
     (case snd (mol_graph_to_rxn_graph ncuda graph feats reactions) of
        Inl e \<Rightarrow> Inl e
      | Inr (graph, feats) \<Rightarrow> readout_layer net graph feats)))"

definition forward ::
  "('g, 'a::ab_group_add, 'n) network \<Rightarrow> nat \<Rightarrow> ('g, 'a) graph \<Rightarrow> 'a feats \<Rightarrow> reaction list \<Rightarrow>
   'n \<Rightarrow> 'n \<Rightarrow> error + 'a tensor" where
  "forward net ncuda graph feats reactions norm_atom norm_bond =
     (case embedding net feats of
        Inl e \<Rightarrow> Inl e
      | Inr feats \<Rightarrow>
     (case run_gated (gated_layers net) graph feats norm_atom norm_bond of
        Inl e \<Rightarrow> Inl e
      | Inr feats \<Rightarrow>
     (case snd (mol_graph_to_rxn_graph ncuda graph feats reactions) of
        Inl e \<Rightarrow> Inl e
      | Inr (graph, feats) \<Rightarrow>
     (case readout_layer net graph feats of
        Inl e \<Rightarrow> Inl e
      | Inr feats \<Rightarrow> run_fc (fc_layers net) feats))))"

text \<open>
  \<open>torch.split(value, n)\<close> for an integer \<open>n\<close>: chunks of \<open>n\<close> rows, the last one
  shorter when the rows do not divide, and one chunk at least; \<open>n = 0\<close> is accepted for
  a tensor without rows only.
\<close>

fun chunk_rows :: "nat \<Rightarrow> nat \<Rightarrow> 'b list \<Rightarrow> 'b list list" where
  "chunk_rows 0 n rows = []"
| "chunk_rows (Suc k) n rows = take n rows # chunk_rows k n (drop n rows)"

definition torch_split_size :: "'a tensor \<Rightarrow> nat \<Rightarrow> error + 'a tensor list" where
  "torch_split_size value n =
     (if n = 0 then (if nrows value = 0 then Inr [value] else Inl RuntimeError)
      else Inr (map (\<lambda>rows. value\<lparr>rws := rows\<rparr>)
                  (chunk_rows (max 1 ((nrows value + n - 1) div n)) n (rws value))))"

text \<open>
  \<open>torch.split(value, t)\<close> for a tensor \<open>t\<close> of integers, here the list of its
  elements: a tensor of one element is read as the integer it holds, the size of the
  chunks; any other tensor is taken for a list of sizes and refused, since it is not a
  list of integers.
\<close>

definition torch_split :: "'a tensor \<Rightarrow> nat list \<Rightarrow> error + 'a tensor list" where
  "torch_split value t = (case t of [n] \<Rightarrow> torch_split_size value n | _ \<Rightarrow> Inl TypeError)"

text \<open>
  \<open>_split_batched_output\<close>: \<open>graph.batch_num_nodes("bond")\<close> is a tensor with one
  count per member of the batch, and goes to \<open>torch.split\<close> as it is.
\<close>

definition split_batched_output :: "('g, 'a) graph \<Rightarrow> 'a tensor \<Rightarrow> error + 'a tensor list" where
  "split_batched_output graph value =
     (case map_of (batch_num_nodes graph) ''bond'' of
        None \<Rightarrow> Inl DGLError
      | Some nbonds \<Rightarrow> torch_split value nbonds)"

text \<open>
  \<open>store_bond_ft\<close> is the step "store bond feature of each molecule", which
  \<open>feature_at_each_layer\<close> takes after the embedding and after each gated layer.
\<close>

definition store_bond_ft ::
  "('g, 'a) graph \<Rightarrow> 'a feats \<Rightarrow> nat \<Rightarrow> (nat \<times> 'a tensor list) list \<Rightarrow>
   error + (nat \<times> 'a tensor list) list" where
  "store_bond_ft graph feats layer_idx all_feats =
     (case map_of feats ''bond'' of
        None \<Rightarrow> Inl KeyError
      | Some value \<Rightarrow>
          (case split_batched_output graph value of
             Inl e \<Rightarrow> Inl e
           | Inr fts \<Rightarrow> Inr (AList.update layer_idx fts all_feats)))"

fun trace_gated ::
  "(('g, 'a) graph \<Rightarrow> 'a feats \<Rightarrow> 'n \<Rightarrow> 'n \<Rightarrow> error + 'a feats) list \<Rightarrow>
   ('g, 'a) graph \<Rightarrow> 'a feats \<Rightarrow> 'n \<Rightarrow> 'n \<Rightarrow> nat \<Rightarrow> (nat \<times> 'a tensor list) list \<Rightarrow>
   error + (nat \<times> 'a tensor list) list" where
  "trace_gated [] graph feats norm_atom norm_bond layer_idx all_feats = Inr all_feats"
| "trace_gated (layer # layers) graph feats norm_atom norm_bond layer_idx all_feats =
     (case layer graph feats norm_atom norm_bond of
        Inl e \<Rightarrow> Inl e
      | Inr feats' \<Rightarrow>
          (case store_bond_ft graph feats' layer_idx all_feats of
             Inl e \<Rightarrow> Inl e
           | Inr all_feats' \<Rightarrow>
               trace_gated layers graph feats' norm_atom norm_bond (layer_idx + 1) all_feats'))"

definition feature_at_each_layer ::
  "('g, 'a, 'n) network \<Rightarrow> ('g, 'a) graph \<Rightarrow> 'a feats \<Rightarrow> reaction list \<Rightarrow> 'n \<Rightarrow> 'n \<Rightarrow>
   error + (nat \<times> 'a tensor list) list" where
  "feature_at_each_layer net graph feats reactions norm_atom norm_bond =
     (case embedding net feats of
        Inl e \<Rightarrow> Inl e
      | Inr feats \<Rightarrow>
          (case store_bond_ft graph feats 0 [] of
             Inl e \<Rightarrow> Inl e
           | Inr all_feats \<Rightarrow>
               trace_gated (gated_layers net) graph feats norm_atom norm_bond 1 all_feats))"

section \<open>A sample reaction\<close>

text \<open>
  The reaction \<open>ABC \<rightarrow> AB + C\<close>, used to evaluate the definitions: the reactant has three
  atoms and two bonds, the product \<open>AB\<close> keeps one bond, the product \<open>C\<close> is a single
  atom, whose graph carries one made-up bond row. The second bond of the reactant is the
  broken one: the bond mapping sends it to the row of zeros.
\<close>

definition ex_tensor :: "nat \<Rightarrow> int list list \<Rightarrow> int tensor" where
  "ex_tensor d rs = \<lparr>tdevice = CUDA 0, ncols = d, rws = rs\<rparr>"

definition ex_mol ::
  "string \<Rightarrow> int list list \<Rightarrow> int list list \<Rightarrow> int list list \<Rightarrow> (string, int) graph" where
  "ex_mol name atoms bonds globals =
     \<lparr>gdevice = CUDA 0, topologies = [name],
      batch_num_nodes =
        [(''atom'', [length atoms]), (''bond'', [length bonds]), (''global'', [length globals])],
      ndata_ft =
        [(''atom'', ex_tensor 2 atoms), (''bond'', ex_tensor 2 bonds),
         (''global'', ex_tensor 1 globals)]\<rparr>"

definition ex_ABC :: "(string, int) graph" where
  "ex_ABC = ex_mol ''ABC'' [[1, 2], [3, 4], [5, 6]] [[7, 8], [9, 10]] [[1]]"

definition ex_AB :: "(string, int) graph" where
  "ex_AB = ex_mol ''AB'' [[10, 20], [30, 40]] [[70, 80]] [[2]]"

definition ex_C :: "(string, int) graph" where
  "ex_C = ex_mol ''C'' [[50, 60]] [[99, 99]] [[3]]"

definition ex_mappings :: "(string \<times> int list) list" where
  "ex_mappings = [(''atom'', [0, 1, 2]), (''bond'', [0, 1])]"

definition ex_hb :: has_bonds where
  "ex_hb = \<lparr>hb_reactants = [True], hb_products = [True, False]\<rparr>"

definition ex_ntypes :: "string list" where
  "ex_ntypes = [''atom'', ''bond'', ''global'']"

text \<open>The same three molecules as one batch without features, and the features apart.\<close>

definition ex_batch :: "device \<Rightarrow> (string, int) graph" where
  "ex_batch d =
     \<lparr>gdevice = d, topologies = [''ABC'', ''AB'', ''C''],
      batch_num_nodes = [(''atom'', [3, 2, 1]), (''bond'', [2, 1, 1]), (''global'', [1, 1, 1])],
      ndata_ft = []\<rparr>"

definition ex_feats :: "int feats" where
  "ex_feats =
     [(''atom'', ex_tensor 2 [[1, 2], [3, 4], [5, 6], [10, 20], [30, 40], [50, 60]]),
      (''bond'', ex_tensor 2 [[7, 8], [9, 10], [70, 80], [99, 99]]),
      (''global'', ex_tensor 1 [[1], [2], [3]])]"

definition ex_rxn :: reaction where
  "ex_rxn =
     \<lparr>rxn_reactants = [0], rxn_products = [1, 2], bond_mapping = [[(0, 0)], []],
      atom_mapping_as_list = [0, 1, 2], bond_mapping_as_list = [0, 1]\<rparr>"

text \<open>
  The reaction \<open>ABC \<rightarrow> ABC\<close> with identity mappings: the bond mapping is the identity on
  the two bonds, or on the two bonds and the row of zeros. And the sample reaction with a
  bond mapping that leaves the row of zeros out.
\<close>

definition id_mappings :: "(string \<times> int list) list" where
  "id_mappings = [(''atom'', [0, 1, 2]), (''bond'', [0, 1])]"

definition id_mappings_padded :: "(string \<times> int list) list" where
  "id_mappings_padded = [(''atom'', [0, 1, 2]), (''bond'', [0, 1, 2])]"

definition id_hb :: has_bonds where
  "id_hb = \<lparr>hb_reactants = [True], hb_products = [True]\<rparr>"

definition short_mappings :: "(string \<times> int list) list" where
  "short_mappings = [(''atom'', [0, 1, 2]), (''bond'', [0])]"

text \<open>The sample reaction with a second reactant.\<close>

definition ex_rxn2 :: reaction where
  "ex_rxn2 = ex_rxn\<lparr>rxn_reactants := [0, 1]\<rparr>"

text \<open>The reaction graph and the reaction features of the sample reaction.\<close>

definition ex_rxn_graph :: "(string, int) graph" where
  "ex_rxn_graph =
     \<lparr>gdevice = CUDA 0, topologies = [''ABC''],
      batch_num_nodes = [(''atom'', [3]), (''bond'', [2]), (''global'', [1])],
      ndata_ft = [(''atom'', ex_tensor 2 [[1, 2], [3, 4], [5, 6]]),
                  (''bond'', ex_tensor 2 [[7, 8], [9, 10]]),
                  (''global'', ex_tensor 1 [[1]])]\<rparr>"

definition ex_rxn_feats :: "int feats" where
  "ex_rxn_feats =
     [(''atom'', ex_tensor 2 [[9, 18], [27, 36], [45, 54]]),
      (''bond'', ex_tensor 2 [[63, 72], [- 9, - 10]]),
      (''global'', ex_tensor 1 [[4]])]"

text \<open>The features of the sample batch, held by the CPU.\<close>

definition ex_feats_cpu :: "int feats" where
  "ex_feats_cpu = map (\<lambda>(nt, t). (nt, t\<lparr>tdevice := CPU\<rparr>)) ex_feats"

text \<open>
  A sample network. The gated layers double every feature. The readout returns one row
  per member of the batched graph: the sums of the columns of the atom features of the
  member, followed by its number of bonds. The last layers add one to every entry, then
  double every row.
\<close>

definition ex_layer :: "(string, int) graph \<Rightarrow> int feats \<Rightarrow> unit \<Rightarrow> unit \<Rightarrow> error + int feats" where
  "ex_layer g feats norm_atom norm_bond =
     Inr (map (\<lambda>(nt, t). (nt, t\<lparr>rws := map (map (\<lambda>x. 2 * x)) (rws t)\<rparr>)) feats)"

definition ex_pool :: "(string, int) graph \<Rightarrow> int list" where
  "ex_pool m =
     (case map_of (ndata_ft m) ''atom'' of
        None \<Rightarrow> []
      | Some t \<Rightarrow> foldl add_row (replicate (ncols t) 0) (rws t))
     @ [int (first_count (batch_num_nodes m) ''bond'')]"

definition ex_readout :: "(string, int) graph \<Rightarrow> int feats \<Rightarrow> error + int tensor" where
  "ex_readout g feats =
     Inr \<lparr>tdevice = gdevice g, ncols = 3, rws = map ex_pool (unbatch (g\<lparr>ndata_ft := feats\<rparr>))\<rparr>"

definition ex_fc :: "(int list \<Rightarrow> int list) \<Rightarrow> int tensor \<Rightarrow> error + int tensor" where
  "ex_fc h t = Inr (t\<lparr>rws := map h (rws t)\<rparr>)"

definition ex_hs :: "(int list \<Rightarrow> int list) list" where
  "ex_hs = [map (\<lambda>x. x + 1), map (\<lambda>x. 2 * x)]"

definition ex_net :: "(string, int, unit) network" where
  "ex_net = \<lparr>embedding = Inr, gated_layers = [ex_layer, ex_layer],
             readout_layer = ex_readout, fc_layers = map ex_fc ex_hs\<rparr>"








section \<open>Lists of results and the loop over the node types\<close>

lemma collect_Inr_conv: "collect xs = Inr ys \<longleftrightarrow> xs = map Inr ys"
proof (induction xs arbitrary: ys)
  case Nil then show ?case by auto
next
  case (Cons x xs)
  show ?case
  proof (cases x)
    case (Inl e) then show ?thesis by (cases ys) auto
  next
    case (Inr v)
    show ?thesis
    proof (cases "collect xs")
      case (Inl e)
      then have "\<And>zs. xs \<noteq> map Inr zs" using Cons.IH by auto
      then show ?thesis using Inl Inr by (cases ys) auto
    next
      case (Inr vs)
      then have "xs = map Inr vs" using Cons.IH by auto
      then show ?thesis using Inr \<open>x = Inr v\<close> by (cases ys) (auto simp: inj_map_eq_map)
    qed
  qed
qed

lemma rxn_feats_keep:
  "rxn_feats nts R P M hb acc = Inr fts \<Longrightarrow> nt \<notin> set nts \<Longrightarrow> map_of fts nt = map_of acc nt"
  by (induction nts arbitrary: acc) (auto split: sum.splits simp: update_conv')

lemma rxn_feats_Inr:
  "rxn_feats nts R P M hb acc = Inr fts \<Longrightarrow> nt \<in> set nts \<Longrightarrow>
   \<exists>t. rxn_node_ft nt R P M hb = Inr t \<and> map_of fts nt = Some t"
proof (induction nts arbitrary: acc)
  case Nil then show ?case by simp
next
  case (Cons a nts)
  from Cons.prems(1) obtain t where t: "rxn_node_ft a R P M hb = Inr t"
    and rest: "rxn_feats nts R P M hb (AList.update a t acc) = Inr fts"
    by (auto split: sum.splits)
  show ?case
  proof (cases "nt \<in> set nts")
    case True then show ?thesis using Cons.IH [OF rest] by simp
  next
    case False
    then have "nt = a" using Cons.prems(2) by simp
    moreover have "map_of fts nt = map_of (AList.update a t acc) nt"
      using rxn_feats_keep [OF rest False] .
    ultimately show ?thesis using t by (simp add: update_conv')
  qed
qed

lemma rxn_feats_total:
  "(\<forall>nt\<in>set nts. \<exists>t. rxn_node_ft nt R P M hb = Inr t) \<Longrightarrow> \<exists>fts. rxn_feats nts R P M hb acc = Inr fts"
  by (induction nts arbitrary: acc) (auto split: sum.splits)

lemma rxn_feats_fail:
  "nt \<in> set nts \<Longrightarrow> rxn_node_ft nt R P M hb = Inl e \<Longrightarrow> \<exists>e'. rxn_feats nts R P M hb acc = Inl e'"
  by (induction nts arbitrary: acc) (auto split: sum.splits)

section \<open>Facts about the tensor operations and \<open>create_rxn_graph\<close>\<close>

lemma torch_cat_Inr:
  assumes "torch_cat ts = Inr t"
  shows "rws t = concat (map rws ts)" and "ts \<noteq> []" and "ncols t = ncols (hd ts)"
    and "tdevice t = tdevice (hd ts)" and "nrows t = sum_list (map nrows ts)"
proof -
  from assms obtain u us where ts: "ts = u # us"
    and ok: "list_all (\<lambda>v. tdevice v = tdevice u \<and> ncols v = ncols u) us"
    and t: "t = \<lparr>tdevice = tdevice u, ncols = ncols u, rws = concat (map rws (u # us))\<rparr>"
    by (cases ts) (auto split: if_splits)
  have m: "map nrows ts = map (\<lambda>v. length (rws v)) ts" by (simp add: nrows_def)
  show "rws t = concat (map rws ts)" "ts \<noteq> []" "ncols t = ncols (hd ts)" "tdevice t = tdevice (hd ts)"
    using ts t by simp_all
  show "nrows t = sum_list (map nrows ts)"
    unfolding m using ts t by (simp add: nrows_def length_concat comp_def)
qed

lemma cat_feats_bond:
  assumes "cat_feats ''bond'' reactants products hb = Inr (rft, pft)"
    and "collect (map (\<lambda>p. node_ft p ''bond'') products) = Inr pfts"
  shows "rws pft = concat (map rws (compress pfts (hb_products hb))) @ [replicate (ncols rft) 0]"
proof -
  from assms obtain rfts r0 rest where
    rfts: "collect (map (\<lambda>p. node_ft p ''bond'') reactants) = Inr rfts" "rfts = r0 # rest"
    and cr: "torch_cat rfts = Inr rft"
    and cp: "torch_cat (compress pfts (hb_products hb) @ [new_zeros r0 1 (ncols r0)]) = Inr pft"
    by (auto simp: cat_feats_def split: sum.splits list.splits)
  have "ncols rft = ncols r0" using torch_cat_Inr(3) [OF cr] rfts by simp
  then show ?thesis using torch_cat_Inr(1) [OF cp] by (simp add: new_zeros_def)
qed

lemma nrows_append_zero:
  assumes "rws pft = concat (map rws ts) @ [z]"
  shows "nrows pft = sum_list (map nrows ts) + 1"
proof -
  have m: "map nrows ts = map (\<lambda>v. length (rws v)) ts" by (simp add: nrows_def)
  show ?thesis unfolding m using assms by (simp add: nrows_def length_concat comp_def)
qed

lemma rxn_node_ft_length_check:
  assumes "cat_feats nt reactants products hb = Inr (rft, pft)" and "nt \<noteq> ''global''"
    and "map_of mappings nt = Some m"
  shows "length m \<noteq> nrows pft \<Longrightarrow> rxn_node_ft nt reactants products mappings hb = Inl AssertionError"
    and "length m = nrows pft \<Longrightarrow> rxn_node_ft nt reactants products mappings hb =
           (case index_rows pft m of Inl e \<Rightarrow> Inl e | Inr p \<Rightarrow> tensor_sub p rft)"
  using assms by (auto simp: rxn_node_ft_def)

lemma rxn_node_ft_Inr_length:
  assumes "rxn_node_ft nt reactants products mappings hb = Inr t" and "nt \<noteq> ''global''"
  shows "\<exists>rft pft m. cat_feats nt reactants products hb = Inr (rft, pft) \<and> map_of mappings nt = Some m
           \<and> length m = nrows pft"
  using assms by (auto simp: rxn_node_ft_def split: sum.splits option.splits if_splits)

lemma create_rxn_graph_Inr:
  assumes "create_rxn_graph reactants products mappings hb ntypes = Inr (g, fts)"
  shows "reactants = [g]"
    and "nt \<in> set ntypes \<Longrightarrow> \<exists>t. rxn_node_ft nt reactants products mappings hb = Inr t \<and> map_of fts nt = Some t"
proof -
  from assms obtain r where r: "reactants = [r]"
    by (auto simp: create_rxn_graph_def split: list.splits)
  with assms have f: "rxn_feats ntypes reactants products mappings hb [] = Inr fts" and "g = r"
    by (auto simp: create_rxn_graph_def split: sum.splits)
  show "reactants = [g]" using r \<open>g = r\<close> by simp
  show "\<exists>t. rxn_node_ft nt reactants products mappings hb = Inr t \<and> map_of fts nt = Some t"
    if "nt \<in> set ntypes" using rxn_feats_Inr [OF f that] .
qed

lemma create_rxn_graph_fail:
  assumes "nt \<in> set ntypes" and "rxn_node_ft nt reactants products mappings hb = Inl e"
  shows "\<exists>e'. create_rxn_graph reactants products mappings hb ntypes = Inl e'"
proof -
  from rxn_feats_fail [OF assms] obtain e' where
    "rxn_feats ntypes reactants products mappings hb [] = Inl e'" by blast
  then show ?thesis by (auto simp: create_rxn_graph_def split: list.splits)
qed

lemma create_rxn_graph_total:
  assumes "\<forall>nt\<in>set ntypes. \<exists>t. rxn_node_ft nt [r] products mappings hb = Inr t"
  shows "\<exists>fts. create_rxn_graph [r] products mappings hb ntypes = Inr (r, fts)"
proof -
  from rxn_feats_total [OF assms] obtain fts where
    "rxn_feats ntypes [r] products mappings hb [] = Inr fts" by blast
  then show ?thesis by (simp add: create_rxn_graph_def)
qed

lemma bcast_same [simp]: "bcast n n = Some n"
  by (simp add: bcast_def)

lemma entry_in_range: "i < nrows t \<Longrightarrow> j < ncols t \<Longrightarrow> entry t i j = rws t ! i ! j"
  by (auto simp: entry_def)

lemma wf_tensor_row: "wf_tensor t \<Longrightarrow> i < nrows t \<Longrightarrow> length (rws t ! i) = ncols t"
  by (simp add: wf_tensor_def nrows_def list_all_length)

lemma tensor_sub_same_shape:
  assumes "tdevice p = tdevice r" and "nrows p = nrows r" and "ncols p = ncols r"
  shows "\<exists>B. tensor_sub p r = Inr B \<and> tdevice B = tdevice r \<and> ncols B = ncols r \<and> nrows B = nrows r
           \<and> (\<forall>i<nrows r. rws B ! i = map (\<lambda>j. rws p ! i ! j - rws r ! i ! j) [0..<ncols r])"
  using assms by (simp add: tensor_sub_def nrows_def entry_in_range)

lemma diff_rows:
  assumes "length xs = d" and "length ys = d"
  shows "map (\<lambda>j. xs ! j - ys ! j) [0..<d] = map2 (-) xs ys"
  using assms by (auto intro!: nth_equalityI)

lemma zero_minus_row:
  assumes "length ys = d"
  shows "map (\<lambda>j. replicate d (0::'a::ab_group_add) ! j - ys ! j) [0..<d] = map (\<lambda>x. 0 - x) ys"
  using assms by (auto intro!: nth_equalityI)

lemma self_minus_row: "map (\<lambda>j. (xs ! j :: 'a::ab_group_add) - xs ! j) [0..<d] = replicate d 0"
  by (auto intro!: nth_equalityI)

lemma index_rows_Inr:
  assumes "list_all (\<lambda>i. py_index (nrows t) i \<noteq> None) m"
  shows "index_rows t m = Inr (t\<lparr>rws := map (\<lambda>i. rws t ! the (py_index (nrows t) i)) m\<rparr>)"
  using assms by (simp add: index_rows_def)

lemma py_index_valid: "- int n \<le> i \<Longrightarrow> i < int n \<Longrightarrow> py_index n i \<noteq> None"
  by (simp add: py_index_def)

lemma py_index_nat [simp]: "k < n \<Longrightarrow> py_index n (int k) = Some k"
  by (simp add: py_index_def)

lemma index_rows_identity: "index_rows t (map int [0..<nrows t]) = Inr t"
proof -
  have "map (\<lambda>i. rws t ! the (py_index (nrows t) i)) (map int [0..<nrows t]) = rws t"
    by (auto intro!: nth_equalityI simp: nrows_def)
  moreover have "list_all (\<lambda>i. py_index (nrows t) i \<noteq> None) (map int [0..<nrows t])"
    by (simp add: list_all_iff)
  ultimately show ?thesis by (simp add: index_rows_def)
qed

lemma collect_single: "collect [x] = (case x of Inl e \<Rightarrow> Inl e | Inr v \<Rightarrow> Inr [v])"
  by (simp split: sum.splits)

lemma cat_feats_plain:
  assumes "nt \<noteq> ''bond''"
    and "collect (map (\<lambda>p. node_ft p nt) reactants) = Inr rfts"
    and "collect (map (\<lambda>p. node_ft p nt) products) = Inr pfts"
    and "torch_cat rfts = Inr rft" and "torch_cat pfts = Inr pft"
  shows "cat_feats nt reactants products hb = Inr (rft, pft)"
  using assms by (simp add: cat_feats_def)

lemma sum0_two_rows:
  assumes "length a = d" and "length b = d"
  shows "foldl add_row (replicate d (0::'a::ab_group_add)) [a, b] = map2 (+) a b"
  using assms by (auto intro!: nth_equalityI simp: add_row_def)

lemma sum0_one_row:
  assumes "length c = d"
  shows "foldl add_row (replicate d (0::'a::ab_group_add)) [c] = c"
  using assms by (auto intro!: nth_equalityI simp: add_row_def)

lemma global_two_products:
  fixes a b c :: "'a::ab_group_add list"
  assumes r: "node_ft r ''global'' = Inr \<lparr>tdevice = dv, ncols = d, rws = [c]\<rparr>"
    and p1: "node_ft p1 ''global'' = Inr \<lparr>tdevice = dv, ncols = d, rws = [a]\<rparr>"
    and p2: "node_ft p2 ''global'' = Inr \<lparr>tdevice = dv, ncols = d, rws = [b]\<rparr>"
    and len: "length a = d" "length b = d" "length c = d"
  shows "rxn_node_ft ''global'' [r] [p1, p2] mappings hb =
           Inr \<lparr>tdevice = dv, ncols = d, rws = [map2 (-) (map2 (+) a b) c]\<rparr>"
proof -
  have cf: "cat_feats ''global'' [r] [p1, p2] hb =
      Inr (\<lparr>tdevice = dv, ncols = d, rws = [c]\<rparr>, \<lparr>tdevice = dv, ncols = d, rws = [a, b]\<rparr>)"
    using r p1 p2 by (simp add: cat_feats_def)
  have sp: "torch_sum0 \<lparr>tdevice = dv, ncols = d, rws = [a, b]\<rparr> =
      \<lparr>tdevice = dv, ncols = d, rws = [map2 (+) a b]\<rparr>"
    using sum0_two_rows [OF len(1,2)] by (simp add: torch_sum0_def)
  have sr: "torch_sum0 \<lparr>tdevice = dv, ncols = d, rws = [c]\<rparr> = \<lparr>tdevice = dv, ncols = d, rws = [c]\<rparr>"
    using sum0_one_row [OF len(3)] by (simp add: torch_sum0_def)
  have "tensor_sub \<lparr>tdevice = dv, ncols = d, rws = [map2 (+) a b]\<rparr> \<lparr>tdevice = dv, ncols = d, rws = [c]\<rparr>
      = Inr \<lparr>tdevice = dv, ncols = d, rws = [map (\<lambda>j. map2 (+) a b ! j - c ! j) [0..<d]]\<rparr>"
    by (simp add: tensor_sub_def nrows_def entry_def)
  moreover have "map (\<lambda>j. map2 (+) a b ! j - c ! j) [0..<d] = map2 (-) (map2 (+) a b) c"
    using len by (intro diff_rows) simp_all
  ultimately show ?thesis using cf sp sr by (simp add: rxn_node_ft_def)
qed

lemma zero_law_plain:
  fixes t :: "'a::ab_group_add tensor"
  assumes "nt \<noteq> ''bond''" and "node_ft r nt = Inr t" and "node_ft p nt = Inr t"
    and "nt \<noteq> ''global'' \<longrightarrow> map_of mappings nt = Some (map int [0..<nrows t])"
  shows "rxn_node_ft nt [r] [p] mappings hb =
           Inr (new_zeros t (if nt = ''global'' then 1 else nrows t) (ncols t))"
proof -
  have cf: "cat_feats nt [r] [p] hb = Inr (t, t)"
    using assms(1-3) by (simp add: cat_feats_def)
  show ?thesis
  proof (cases "nt = ''global''")
    case True
    have "tensor_sub (torch_sum0 t) (torch_sum0 t) = Inr (new_zeros t 1 (ncols t))"
      by (simp add: tensor_sub_def torch_sum0_def nrows_def new_zeros_def map_replicate_const)
    then show ?thesis using cf True by (simp add: rxn_node_ft_def)
  next
    case False
    have "map (\<lambda>i. map (\<lambda>j. entry t i j - entry t i j) [0..<ncols t]) [0..<nrows t]
        = replicate (nrows t) (replicate (ncols t) 0)"
      by (auto intro!: nth_equalityI)
    then have "tensor_sub t t = Inr (new_zeros t (nrows t) (ncols t))"
      by (simp add: tensor_sub_def new_zeros_def)
    then show ?thesis using cf False assms(4) by (simp add: rxn_node_ft_def index_rows_identity)
  qed
qed

lemma identity_bond_map_rejected:
  fixes t :: "'a::ab_group_add tensor"
  assumes "node_ft r ''bond'' = Inr t" and "node_ft p ''bond'' = Inr t"
    and "hb_products hb = [True]" and "map_of mappings ''bond'' = Some (map int [0..<nrows t])"
  shows "rxn_node_ft ''bond'' [r] [p] mappings hb = Inl AssertionError"
proof -
  have "cat_feats ''bond'' [r] [p] hb =
      Inr (t, \<lparr>tdevice = tdevice t, ncols = ncols t, rws = rws t @ [replicate (ncols t) 0]\<rparr>)"
    using assms(1-3) by (simp add: cat_feats_def new_zeros_def)
  then show ?thesis using assms(4) by (simp add: rxn_node_ft_def nrows_def)
qed

lemma torch_cat_uniform:
  assumes "list_all (\<lambda>u. tdevice u = dv \<and> ncols u = d) ts" and "ts \<noteq> []"
  shows "torch_cat ts = Inr \<lparr>tdevice = dv, ncols = d, rws = concat (map rws ts)\<rparr>"
proof (cases ts)
  case Nil then show ?thesis using assms(2) by simp
next
  case (Cons u us)
  then have "tdevice u = dv" "ncols u = d" "list_all (\<lambda>v. tdevice v = tdevice u \<and> ncols v = ncols u) us"
    using assms(1) by (auto simp: list_all_iff)
  then show ?thesis using Cons by simp
qed

lemma length_concat_nrows: "length (concat (map rws ts)) = sum_list (map nrows ts)"
proof -
  have m: "map nrows ts = map (\<lambda>v. length (rws v)) ts" by (simp add: nrows_def)
  show ?thesis unfolding m by (simp add: length_concat comp_def)
qed

lemma bond_padding_row:
  fixes rft :: "'a::ab_group_add tensor"
  assumes r: "node_ft r ''bond'' = Inr rft" and wf: "wf_tensor rft"
    and p: "collect (map (\<lambda>p. node_ft p ''bond'') products) = Inr pfts"
    and same: "list_all (\<lambda>u. tdevice u = tdevice rft \<and> ncols u = ncols rft) (compress pfts (hb_products hb))"
    and N: "N = sum_list (map nrows (compress pfts (hb_products hb)))"
    and m: "map_of mappings ''bond'' = Some m" "length m = N + 1"
      "list_all (\<lambda>i. - int (N + 1) \<le> i \<and> i < int (N + 1)) m"
    and al: "nrows rft = N + 1"
  shows "\<exists>B. rxn_node_ft ''bond'' [r] products mappings hb = Inr B \<and> nrows B = nrows rft \<and>
           (\<forall>i<length m. py_index (N + 1) (m ! i) = Some N \<longrightarrow>
              rws B ! i = map (\<lambda>x. 0 - x) (rws rft ! i))"
proof -
  define sel where "sel = compress pfts (hb_products hb)"
  define z where "z = new_zeros rft 1 (ncols rft)"
  define pft where "pft = \<lparr>tdevice = tdevice rft, ncols = ncols rft, rws = concat (map rws (sel @ [z]))\<rparr>"
  have "list_all (\<lambda>u. tdevice u = tdevice rft \<and> ncols u = ncols rft) (sel @ [z])"
    using same by (simp add: sel_def z_def new_zeros_def)
  then have cat: "torch_cat (sel @ [z]) = Inr pft"
    unfolding pft_def by (rule torch_cat_uniform) simp
  have cf: "cat_feats ''bond'' [r] products hb = Inr (rft, pft)"
    using r p cat by (simp add: cat_feats_def sel_def z_def)
  have rows: "rws pft = concat (map rws sel) @ [replicate (ncols rft) 0]"
    by (simp add: pft_def z_def new_zeros_def)
  have lenN: "length (concat (map rws sel)) = N"
    using N by (simp add: length_concat_nrows sel_def)
  have np: "nrows pft = N + 1" using rows lenN by (simp add: nrows_def)
  have valid: "list_all (\<lambda>i. py_index (nrows pft) i \<noteq> None) m"
    unfolding list_all_iff
  proof
    fix i assume "i \<in> set m"
    then have "- int (N + 1) \<le> i" "i < int (N + 1)" using m(3) unfolding list_all_iff by blast+
    then show "py_index (nrows pft) i \<noteq> None" unfolding np by (rule py_index_valid)
  qed
  define P where "P = pft\<lparr>rws := map (\<lambda>i. rws pft ! the (py_index (nrows pft) i)) m\<rparr>"
  have ix: "index_rows pft m = Inr P"
    using index_rows_Inr [OF valid] by (simp add: P_def)
  have shape: "tdevice P = tdevice rft" "nrows P = nrows rft" "ncols P = ncols rft"
    using m(2) al by (simp_all add: P_def pft_def nrows_def)
  from tensor_sub_same_shape [OF shape] obtain B where
    B: "tensor_sub P rft = Inr B" "nrows B = nrows rft"
      "\<forall>i<nrows rft. rws B ! i = map (\<lambda>j. rws P ! i ! j - rws rft ! i ! j) [0..<ncols rft]"
    by blast
  have res: "rxn_node_ft ''bond'' [r] products mappings hb = Inr B"
    using cf m(1,2) np ix B(1) by (simp add: rxn_node_ft_def)
  have "rws B ! i = map (\<lambda>x. 0 - x) (rws rft ! i)"
    if i: "i < length m" and brk: "py_index (N + 1) (m ! i) = Some N" for i
  proof -
    have "rws P ! i = rws pft ! N"
      using i brk np by (simp add: P_def)
    also have "\<dots> = replicate (ncols rft) 0"
      using rows lenN by (simp add: nth_append)
    finally have Pi: "rws P ! i = replicate (ncols rft) 0" .
    have ir: "i < nrows rft" using i m(2) al by simp
    then have "length (rws rft ! i) = ncols rft" using wf by (rule wf_tensor_row [rotated])
    from zero_minus_row [OF this] B(3) ir Pi show ?thesis by simp
  qed
  then show ?thesis using res B(2) by blast
qed

section \<open>The sample reaction, evaluated\<close>

lemmas ex_defs = ex_tensor_def ex_mol_def ex_ABC_def ex_AB_def ex_C_def ex_mappings_def ex_hb_def
  ex_ntypes_def

lemma ex_create:
  "create_rxn_graph [ex_ABC] [ex_AB, ex_C] ex_mappings ex_hb ex_ntypes =
     Inr (ex_ABC, [(''atom'', ex_tensor 2 [[9, 18], [27, 36], [45, 54]]),
                   (''bond'', ex_tensor 2 [[63, 72], [- 9, - 10]]),
                   (''global'', ex_tensor 1 [[4]])])"
  by code_simp

lemma ex_bond_fts:
  "node_ft ex_ABC ''bond'' = Inr (ex_tensor 2 [[7, 8], [9, 10]])"
  "collect (map (\<lambda>p. node_ft p ''bond'') [ex_AB, ex_C]) =
     Inr [ex_tensor 2 [[70, 80]], ex_tensor 2 [[99, 99]]]"
  by (simp_all add: ex_defs node_ft_def)

lemma ex_cat_bond:
  "cat_feats ''bond'' [ex_ABC] [ex_AB, ex_C] ex_hb =
     Inr (ex_tensor 2 [[7, 8], [9, 10]], ex_tensor 2 [[70, 80], [0, 0]])"
  by code_simp

section \<open>Properties of \<open>create_rxn_graph\<close>\<close>

text \<open>
  Claim C1 (bond padding). The reactant has a well-formed bond tensor \<open>rft\<close>; the products
  that \<open>has_bonds\<close> keeps have bond tensors on its device and with its number of columns,
  \<open>N\<close> rows in all; the bond mapping \<open>m\<close> has \<open>N + 1\<close> valid indices, as many as the
  reactant has bond rows; the other node types of \<open>ntypes\<close> go through. Then
  \<open>create_rxn_graph\<close> does not raise, and every row \<open>i\<close> of the bond features whose
  mapping entry names the appended row (index \<open>N\<close>, which \<open>-1\<close> names too), the row of
  the broken bond, is zero minus row \<open>i\<close> of the reactant. No assumption is needed on
  how many products are bond-free; a reaction with exactly one such product is the case
  evaluated below.
\<close>

theorem bond_padding_correct:
  fixes rft :: "'a::ab_group_add tensor"
  assumes "node_ft r ''bond'' = Inr rft" and "wf_tensor rft"
    and "collect (map (\<lambda>p. node_ft p ''bond'') products) = Inr pfts"
    and "list_all (\<lambda>u. tdevice u = tdevice rft \<and> ncols u = ncols rft) (compress pfts (hb_products hb))"
    and "N = sum_list (map nrows (compress pfts (hb_products hb)))"
    and "map_of mappings ''bond'' = Some m" and "length m = N + 1"
    and "list_all (\<lambda>i. - int (N + 1) \<le> i \<and> i < int (N + 1)) m"
    and "nrows rft = N + 1"
    and others: "\<forall>nt\<in>set ntypes. nt \<noteq> ''bond'' \<longrightarrow> (\<exists>t. rxn_node_ft nt [r] products mappings hb = Inr t)"
  shows "\<exists>fts. create_rxn_graph [r] products mappings hb ntypes = Inr (r, fts) \<and>
           (''bond'' \<in> set ntypes \<longrightarrow>
              (\<exists>B. map_of fts ''bond'' = Some B \<and> nrows B = nrows rft \<and>
                 (\<forall>i<length m. py_index (N + 1) (m ! i) = Some N \<longrightarrow>
                    rws B ! i = map (\<lambda>x. 0 - x) (rws rft ! i))))"
proof -
  from bond_padding_row [OF assms(1-9)] obtain B where
    B: "rxn_node_ft ''bond'' [r] products mappings hb = Inr B" "nrows B = nrows rft"
      "\<forall>i<length m. py_index (N + 1) (m ! i) = Some N \<longrightarrow> rws B ! i = map (\<lambda>x. 0 - x) (rws rft ! i)"
    by blast
  have "\<forall>nt\<in>set ntypes. \<exists>t. rxn_node_ft nt [r] products mappings hb = Inr t"
  proof
    fix nt assume nt: "nt \<in> set ntypes"
    show "\<exists>t. rxn_node_ft nt [r] products mappings hb = Inr t"
    proof (cases "nt = ''bond''")
      case True then show ?thesis using B(1) by simp
    next
      case False then show ?thesis using others nt by simp
    qed
  qed
  from create_rxn_graph_total [OF this] obtain fts where
    fts: "create_rxn_graph [r] products mappings hb ntypes = Inr (r, fts)" by blast
  have "\<exists>B. map_of fts ''bond'' = Some B \<and> nrows B = nrows rft \<and>
      (\<forall>i<length m. py_index (N + 1) (m ! i) = Some N \<longrightarrow> rws B ! i = map (\<lambda>x. 0 - x) (rws rft ! i))"
    if "''bond'' \<in> set ntypes"
  proof -
    have "map_of fts ''bond'' = Some B"
      using create_rxn_graph_Inr(2) [OF fts that] B(1) by simp
    with B(2,3) show ?thesis by (intro exI [of _ B] conjI)
  qed
  with fts show ?thesis by (intro exI [of _ fts] conjI impI)
qed

theorem bond_padding_correct_witness:
  "\<exists>fts B. create_rxn_graph [ex_ABC] [ex_AB, ex_C] ex_mappings ex_hb ex_ntypes = Inr (ex_ABC, fts) \<and>
     length (filter Not (hb_products ex_hb)) = 1 \<and>
     map_of fts ''bond'' = Some B \<and> rws B ! 1 = [- 9, - 10]"
proof -
  have h2: "wf_tensor (ex_tensor 2 [[7, 8], [9, 10]])"
    by (simp add: wf_tensor_def ex_tensor_def)
  have h4: "list_all (\<lambda>u. tdevice u = tdevice (ex_tensor 2 [[7, 8], [9, 10]]) \<and>
                 ncols u = ncols (ex_tensor 2 [[7, 8], [9, 10]]))
      (compress [ex_tensor 2 [[70, 80]], ex_tensor 2 [[99, 99]]] (hb_products ex_hb))"
    by (simp add: ex_defs)
  have h5: "(1::nat) = sum_list (map nrows
      (compress [ex_tensor 2 [[70, 80]], ex_tensor 2 [[99, 99]]] (hb_products ex_hb)))"
    by (simp add: ex_defs nrows_def)
  have h6: "map_of ex_mappings ''bond'' = Some [0, 1]" by (simp add: ex_defs)
  have h7: "length [0, 1 :: int] = 1 + 1" by simp
  have h8: "list_all (\<lambda>i. - int (1 + 1) \<le> i \<and> i < int (1 + 1)) [0, 1]" by simp
  have h9: "nrows (ex_tensor 2 [[7, 8], [9, 10]]) = 1 + 1" by (simp add: ex_defs nrows_def)
  have a: "rxn_node_ft ''atom'' [ex_ABC] [ex_AB, ex_C] ex_mappings ex_hb =
      Inr (ex_tensor 2 [[9, 18], [27, 36], [45, 54]])" by code_simp
  have g: "rxn_node_ft ''global'' [ex_ABC] [ex_AB, ex_C] ex_mappings ex_hb = Inr (ex_tensor 1 [[4]])"
    by code_simp
  have h10: "\<forall>nt\<in>set ex_ntypes. nt \<noteq> ''bond'' \<longrightarrow>
      (\<exists>t. rxn_node_ft nt [ex_ABC] [ex_AB, ex_C] ex_mappings ex_hb = Inr t)"
    using a g by (simp add: ex_ntypes_def)
  from bond_padding_correct [OF ex_bond_fts(1) h2 ex_bond_fts(2) h4 h5 h6 h7 h8 h9 h10]
  obtain fts B where r: "create_rxn_graph [ex_ABC] [ex_AB, ex_C] ex_mappings ex_hb ex_ntypes = Inr (ex_ABC, fts)"
    "map_of fts ''bond'' = Some B"
    "\<forall>i<length [0, 1 :: int]. py_index (1 + 1) ([0, 1] ! i) = Some 1 \<longrightarrow>
        rws B ! i = map (\<lambda>x. 0 - x) (rws (ex_tensor 2 [[7, 8], [9, 10]]) ! i)"
    by (auto simp: ex_ntypes_def)
  from r(3) have "rws B ! 1 = [- 9, - 10]"
    by (simp add: py_index_def ex_tensor_def)
  moreover have "length (filter Not (hb_products ex_hb)) = 1" by (simp add: ex_hb_def)
  ultimately show ?thesis using r(1,2) by blast
qed

text \<open>
  Claim C2 (global pooling). With two products, each molecule holding one global row
  (\<open>a\<close> and \<open>b\<close> for the products, \<open>c\<close> for the reactant), the global feature that
  \<open>create_rxn_graph\<close> returns is the single row \<open>(a + b) - c\<close>; the mappings play no
  part in it.
\<close>

theorem global_feature_is_pooled_difference:
  fixes a b c :: "'a::ab_group_add list"
  assumes "node_ft r ''global'' = Inr \<lparr>tdevice = dv, ncols = d, rws = [c]\<rparr>"
    and "node_ft p1 ''global'' = Inr \<lparr>tdevice = dv, ncols = d, rws = [a]\<rparr>"
    and "node_ft p2 ''global'' = Inr \<lparr>tdevice = dv, ncols = d, rws = [b]\<rparr>"
    and "length a = d" and "length b = d" and "length c = d"
    and "''global'' \<in> set ntypes"
    and "create_rxn_graph [r] [p1, p2] mappings hb ntypes = Inr (g, fts)"
  shows "map_of fts ''global'' = Some \<lparr>tdevice = dv, ncols = d, rws = [map2 (-) (map2 (+) a b) c]\<rparr>"
proof -
  from create_rxn_graph_Inr(2) [OF assms(8) assms(7)] obtain t where
    "rxn_node_ft ''global'' [r] [p1, p2] mappings hb = Inr t" "map_of fts ''global'' = Some t"
    by blast
  then show ?thesis using global_two_products [OF assms(1-6), of mappings hb] by simp
qed

theorem global_feature_is_pooled_difference_witness:
  "\<exists>g fts. create_rxn_graph [ex_ABC] [ex_AB, ex_C] ex_mappings ex_hb ex_ntypes = Inr (g, fts) \<and>
     map_of fts ''global'' = Some (ex_tensor 1 [[(2 + 3) - 1]])"
proof -
  have r: "node_ft ex_ABC ''global'' = Inr \<lparr>tdevice = CUDA 0, ncols = 1, rws = [[1]]\<rparr>"
    and p1: "node_ft ex_AB ''global'' = Inr \<lparr>tdevice = CUDA 0, ncols = 1, rws = [[2]]\<rparr>"
    and p2: "node_ft ex_C ''global'' = Inr \<lparr>tdevice = CUDA 0, ncols = 1, rws = [[3]]\<rparr>"
    by (simp_all add: ex_defs node_ft_def)
  have len: "length [2 :: int] = 1" "length [3 :: int] = 1" "length [1 :: int] = 1" by simp_all
  have g: "''global'' \<in> set ex_ntypes" by (simp add: ex_ntypes_def)
  from global_feature_is_pooled_difference [OF r p1 p2 len g ex_create]
  show ?thesis using ex_create by (simp add: ex_tensor_def)
qed

text \<open>
  Claim C3 (zero law), as stated: reactant and only product identical, atom and bond
  mappings the identity, all three node types. The claim fails: the bond features of the
  product are followed by the row of zeros, so that the identity on the bonds is one
  index short and the length check raises; the identity on the bonds and the row of
  zeros passes the check and leaves one row more than the reactant has, which the
  subtraction rejects.
\<close>

theorem zero_law_counterexample:
  "create_rxn_graph [ex_ABC] [ex_ABC] id_mappings id_hb [''atom'', ''bond'', ''global'']
     = Inl AssertionError
   \<and> create_rxn_graph [ex_ABC] [ex_ABC] id_mappings_padded id_hb [''atom'', ''bond'', ''global'']
     = Inl RuntimeError"
  by code_simp

text \<open>
  Claim C3, amended. Reactant \<open>r\<close> and only product \<open>p\<close> have the same features, and
  every node type but \<open>global\<close> is mapped by the identity on its rows. When \<open>bond\<close> is
  not among the node types, \<open>create_rxn_graph\<close> returns the zero tensor for each of them
  (one row for \<open>global\<close>). When \<open>bond\<close> is among them and the product has bonds,
  \<open>create_rxn_graph\<close> raises.
\<close>

theorem zero_law_atom_global:
  fixes r p :: "('g, 'a::ab_group_add) graph"
  assumes "\<forall>nt\<in>set ntypes. \<exists>t. node_ft r nt = Inr t \<and> node_ft p nt = Inr t \<and>
             (nt \<noteq> ''global'' \<longrightarrow> map_of mappings nt = Some (map int [0..<nrows t]))"
  shows "(''bond'' \<notin> set ntypes \<longrightarrow>
           (\<exists>fts. create_rxn_graph [r] [p] mappings hb ntypes = Inr (r, fts) \<and>
              (\<forall>nt\<in>set ntypes. \<exists>t. node_ft r nt = Inr t \<and>
                 map_of fts nt = Some (new_zeros t (if nt = ''global'' then 1 else nrows t) (ncols t)))))
       \<and> (''bond'' \<in> set ntypes \<and> hb_products hb = [True] \<longrightarrow>
           (\<exists>e. create_rxn_graph [r] [p] mappings hb ntypes = Inl e))"
proof (intro conjI impI)
  assume nb: "''bond'' \<notin> set ntypes"
  have each: "\<exists>t. node_ft r nt = Inr t \<and>
      rxn_node_ft nt [r] [p] mappings hb = Inr (new_zeros t (if nt = ''global'' then 1 else nrows t) (ncols t))"
    if "nt \<in> set ntypes" for nt
  proof -
    from assms that obtain t where t: "node_ft r nt = Inr t" "node_ft p nt = Inr t"
      "nt \<noteq> ''global'' \<longrightarrow> map_of mappings nt = Some (map int [0..<nrows t])" by blast
    have "nt \<noteq> ''bond''" using nb that by auto
    from zero_law_plain [OF this t] t(1) show ?thesis by blast
  qed
  then have "\<forall>nt\<in>set ntypes. \<exists>u. rxn_node_ft nt [r] [p] mappings hb = Inr u" by blast
  from create_rxn_graph_total [OF this] obtain fts where
    fts: "create_rxn_graph [r] [p] mappings hb ntypes = Inr (r, fts)" by blast
  have "\<exists>t. node_ft r nt = Inr t \<and>
      map_of fts nt = Some (new_zeros t (if nt = ''global'' then 1 else nrows t) (ncols t))"
    if "nt \<in> set ntypes" for nt
    using each [OF that] create_rxn_graph_Inr(2) [OF fts that] by auto
  then show "\<exists>fts. create_rxn_graph [r] [p] mappings hb ntypes = Inr (r, fts) \<and>
      (\<forall>nt\<in>set ntypes. \<exists>t. node_ft r nt = Inr t \<and>
         map_of fts nt = Some (new_zeros t (if nt = ''global'' then 1 else nrows t) (ncols t)))"
    using fts by blast
next
  assume b: "''bond'' \<in> set ntypes \<and> hb_products hb = [True]"
  with assms obtain t where t: "node_ft r ''bond'' = Inr t" "node_ft p ''bond'' = Inr t"
    "map_of mappings ''bond'' = Some (map int [0..<nrows t])" by fastforce
  from identity_bond_map_rejected [OF t(1,2) _ t(3)] b
  have "rxn_node_ft ''bond'' [r] [p] mappings hb = Inl AssertionError" by simp
  from create_rxn_graph_fail [OF _ this] b
  show "\<exists>e. create_rxn_graph [r] [p] mappings hb ntypes = Inl e" by simp
qed

theorem zero_law_atom_global_witness:
  "(\<exists>fts. create_rxn_graph [ex_ABC] [ex_ABC] id_mappings id_hb [''atom'', ''global''] = Inr (ex_ABC, fts)
      \<and> map_of fts ''atom'' = Some (ex_tensor 2 [[0, 0], [0, 0], [0, 0]])
      \<and> map_of fts ''global'' = Some (ex_tensor 1 [[0]]))
   \<and> (\<exists>e. create_rxn_graph [ex_ABC] [ex_ABC] id_mappings id_hb [''atom'', ''bond'', ''global''] = Inl e)"
proof -
  have fa: "node_ft ex_ABC ''atom'' = Inr (ex_tensor 2 [[1, 2], [3, 4], [5, 6]])"
    and fb: "node_ft ex_ABC ''bond'' = Inr (ex_tensor 2 [[7, 8], [9, 10]])"
    and fg: "node_ft ex_ABC ''global'' = Inr (ex_tensor 1 [[1]])"
    by (simp_all add: ex_defs node_ft_def)
  have ma: "map_of id_mappings ''atom'' = Some (map int [0..<nrows (ex_tensor 2 [[1, 2], [3, 4], [5, 6]])])"
    and mb: "map_of id_mappings ''bond'' = Some (map int [0..<nrows (ex_tensor 2 [[7, 8], [9, 10]])])"
    by (simp_all add: id_mappings_def nrows_def ex_tensor_def upt_rec)
  have h1: "\<forall>nt\<in>set [''atom'', ''global'']. \<exists>t. node_ft ex_ABC nt = Inr t \<and> node_ft ex_ABC nt = Inr t \<and>
      (nt \<noteq> ''global'' \<longrightarrow> map_of id_mappings nt = Some (map int [0..<nrows t]))"
    using fa fg ma by simp
  have h2: "\<forall>nt\<in>set [''atom'', ''bond'', ''global'']. \<exists>t. node_ft ex_ABC nt = Inr t \<and> node_ft ex_ABC nt = Inr t \<and>
      (nt \<noteq> ''global'' \<longrightarrow> map_of id_mappings nt = Some (map int [0..<nrows t]))"
    using fa fb fg ma mb by simp
  from zero_law_atom_global [OF h1, of id_hb] obtain fts where
    fts: "create_rxn_graph [ex_ABC] [ex_ABC] id_mappings id_hb [''atom'', ''global''] = Inr (ex_ABC, fts)"
      "\<forall>nt\<in>set [''atom'', ''global'']. \<exists>t. node_ft ex_ABC nt = Inr t \<and>
         map_of fts nt = Some (new_zeros t (if nt = ''global'' then 1 else nrows t) (ncols t))"
    by auto
  from fts(2) fa fg have
    "map_of fts ''atom'' = Some (ex_tensor 2 [[0, 0], [0, 0], [0, 0]])"
    "map_of fts ''global'' = Some (ex_tensor 1 [[0]])"
    by (auto simp: new_zeros_def ex_tensor_def nrows_def numeral_2_eq_2 numeral_3_eq_3)
  moreover from zero_law_atom_global [OF h2, of id_hb]
  have "\<exists>e. create_rxn_graph [ex_ABC] [ex_ABC] id_mappings id_hb [''atom'', ''bond'', ''global''] = Inl e"
    by (simp add: id_hb_def)
  ultimately show ?thesis using fts(1) by blast
qed

text \<open>
  Claim C4 (alignment). For a node type other than \<open>global\<close>, once the product features
  are concatenated into \<open>pft\<close> (for \<open>bond\<close>, with the row of zeros), a mapping whose
  length is not the number of rows of \<open>pft\<close> makes the loop body raise
  \<open>AssertionError\<close>, and \<open>create_rxn_graph\<close> fail; nothing is truncated or padded.
  When the lengths agree the body goes on: its result is that of the reordering and
  of the subtraction.
\<close>

theorem mapping_length_checked:
  assumes "cat_feats nt reactants products hb = Inr (rft, pft)" and "nt \<noteq> ''global''"
    and "map_of mappings nt = Some m"
  shows "(length m \<noteq> nrows pft \<longrightarrow>
            rxn_node_ft nt reactants products mappings hb = Inl AssertionError \<and>
            (nt \<in> set ntypes \<longrightarrow> (\<exists>e. create_rxn_graph reactants products mappings hb ntypes = Inl e)))
       \<and> (length m = nrows pft \<longrightarrow>
            rxn_node_ft nt reactants products mappings hb =
              (case index_rows pft m of Inl e \<Rightarrow> Inl e | Inr p \<Rightarrow> tensor_sub p rft))"
proof (intro conjI impI)
  assume ne: "length m \<noteq> nrows pft"
  show a: "rxn_node_ft nt reactants products mappings hb = Inl AssertionError"
    using rxn_node_ft_length_check(1) [OF assms ne] .
  show "\<exists>e. create_rxn_graph reactants products mappings hb ntypes = Inl e" if "nt \<in> set ntypes"
    using create_rxn_graph_fail [OF that a] .
next
  assume "length m = nrows pft"
  then show "rxn_node_ft nt reactants products mappings hb =
      (case index_rows pft m of Inl e \<Rightarrow> Inl e | Inr p \<Rightarrow> tensor_sub p rft)"
    using rxn_node_ft_length_check(2) [OF assms] by simp
qed

theorem mapping_length_checked_witness:
  "rxn_node_ft ''bond'' [ex_ABC] [ex_AB, ex_C] short_mappings ex_hb = Inl AssertionError
   \<and> (\<exists>e. create_rxn_graph [ex_ABC] [ex_AB, ex_C] short_mappings ex_hb ex_ntypes = Inl e)
   \<and> rxn_node_ft ''bond'' [ex_ABC] [ex_AB, ex_C] ex_mappings ex_hb =
       Inr (ex_tensor 2 [[63, 72], [- 9, - 10]])"
proof -
  have nb: "''bond'' \<noteq> ''global''" by simp
  have m1: "map_of short_mappings ''bond'' = Some [0]" by (simp add: short_mappings_def)
  have m2: "map_of ex_mappings ''bond'' = Some [0, 1]" by (simp add: ex_mappings_def)
  have n: "nrows (ex_tensor 2 [[70, 80], [0, 0]]) = 2" by (simp add: nrows_def ex_tensor_def)
  have ix: "(case index_rows (ex_tensor 2 [[70, 80], [0, 0]]) [0, 1] of
               Inl e \<Rightarrow> Inl e | Inr p \<Rightarrow> tensor_sub p (ex_tensor 2 [[7, 8], [9, 10]])) =
            Inr (ex_tensor 2 [[63, 72], [- 9, - 10]])"
    by code_simp
  from mapping_length_checked [OF ex_cat_bond nb m1, of ex_ntypes] n
  have "rxn_node_ft ''bond'' [ex_ABC] [ex_AB, ex_C] short_mappings ex_hb = Inl AssertionError"
    "\<exists>e. create_rxn_graph [ex_ABC] [ex_AB, ex_C] short_mappings ex_hb ex_ntypes = Inl e"
    by (simp_all add: ex_ntypes_def)
  moreover from mapping_length_checked [OF ex_cat_bond nb m2, of ex_ntypes] n ix
  have "rxn_node_ft ''bond'' [ex_ABC] [ex_AB, ex_C] ex_mappings ex_hb =
       Inr (ex_tensor 2 [[63, 72], [- 9, - 10]])"
    by simp
  ultimately show ?thesis by blast
qed

text \<open>
  Claim C9 (the row of zeros is unconditional). Whatever the reaction, the concatenated
  bond features of the products are the bond rows of the products that \<open>has_bonds\<close>
  keeps, \<open>N\<close> in all, followed by exactly one row of zeros. So a run of
  \<open>create_rxn_graph\<close> over the type \<open>bond\<close> that returns has a bond mapping of length
  \<open>N + 1\<close>, and a bond mapping of length \<open>N\<close>, such as a permutation of the product
  bonds, fails the length check.
\<close>

theorem bond_zero_row_always_appended:
  assumes "collect (map (\<lambda>p. node_ft p ''bond'') products) = Inr pfts"
    and "N = sum_list (map nrows (compress pfts (hb_products hb)))"
  shows "(\<forall>rft pft. cat_feats ''bond'' reactants products hb = Inr (rft, pft) \<longrightarrow>
            rws pft = concat (map rws (compress pfts (hb_products hb))) @ [replicate (ncols rft) 0]
            \<and> nrows pft = N + 1
            \<and> (\<forall>m. map_of mappings ''bond'' = Some m \<and> length m = N \<longrightarrow>
                 rxn_node_ft ''bond'' reactants products mappings hb = Inl AssertionError))
       \<and> (\<forall>g fts. ''bond'' \<in> set ntypes \<and>
             create_rxn_graph reactants products mappings hb ntypes = Inr (g, fts) \<longrightarrow>
             (\<exists>m. map_of mappings ''bond'' = Some m \<and> length m = N + 1))
       \<and> (\<forall>m. ''bond'' \<in> set ntypes \<and> map_of mappings ''bond'' = Some m \<and> length m = N \<longrightarrow>
             (\<exists>e. create_rxn_graph reactants products mappings hb ntypes = Inl e))"
proof -
  have rows: "rws pft = concat (map rws (compress pfts (hb_products hb))) @ [replicate (ncols rft) 0]"
    and n: "nrows pft = N + 1"
    if "cat_feats ''bond'' reactants products hb = Inr (rft, pft)" for rft pft
  proof -
    show "rws pft = concat (map rws (compress pfts (hb_products hb))) @ [replicate (ncols rft) 0]"
      using cat_feats_bond [OF that assms(1)] .
    then show "nrows pft = N + 1" using assms(2) by (simp add: nrows_append_zero)
  qed
  have chk: "rxn_node_ft ''bond'' reactants products mappings hb = Inl AssertionError"
    if "cat_feats ''bond'' reactants products hb = Inr (rft, pft)"
      and "map_of mappings ''bond'' = Some m" and "length m = N" for rft pft m
    using rxn_node_ft_length_check(1) [OF that(1) _ that(2)] n [OF that(1)] that(3) by simp
  have need: "\<exists>m. map_of mappings ''bond'' = Some m \<and> length m = N + 1"
    if "''bond'' \<in> set ntypes"
      and "create_rxn_graph reactants products mappings hb ntypes = Inr (g, fts)" for g fts
  proof -
    from create_rxn_graph_Inr(2) [OF that(2) that(1)] obtain t where
      "rxn_node_ft ''bond'' reactants products mappings hb = Inr t" by blast
    from rxn_node_ft_Inr_length [OF this] obtain rft pft m where
      "cat_feats ''bond'' reactants products hb = Inr (rft, pft)"
      "map_of mappings ''bond'' = Some m" "length m = nrows pft" by auto
    then show ?thesis using n by auto
  qed
  have fails: "\<exists>e. create_rxn_graph reactants products mappings hb ntypes = Inl e"
    if "''bond'' \<in> set ntypes" and "map_of mappings ''bond'' = Some m" and "length m = N" for m
  proof (cases "create_rxn_graph reactants products mappings hb ntypes")
    case (Inl e) then show ?thesis by blast
  next
    case (Inr res)
    then obtain g fts where "create_rxn_graph reactants products mappings hb ntypes = Inr (g, fts)"
      by (cases res) auto
    from need [OF that(1) this] that(2,3) show ?thesis by simp
  qed
  show ?thesis using rows n chk need fails by blast
qed

theorem bond_zero_row_always_appended_witness:
  "rxn_node_ft ''bond'' [ex_ABC] [ex_AB, ex_C] short_mappings ex_hb = Inl AssertionError
   \<and> (\<exists>e. create_rxn_graph [ex_ABC] [ex_AB, ex_C] short_mappings ex_hb ex_ntypes = Inl e)
   \<and> (\<exists>m. map_of ex_mappings ''bond'' = Some m \<and> length m = 1 + 1)"
proof -
  have h2: "(1::nat) = sum_list (map nrows
      (compress [ex_tensor 2 [[70, 80]], ex_tensor 2 [[99, 99]]] (hb_products ex_hb)))"
    by (simp add: ex_defs nrows_def)
  have m1: "map_of short_mappings ''bond'' = Some [0]" by (simp add: short_mappings_def)
  have b: "''bond'' \<in> set ex_ntypes" by (simp add: ex_ntypes_def)
  from bond_zero_row_always_appended [OF ex_bond_fts(2) h2, of "[ex_ABC]" short_mappings ex_ntypes]
    ex_cat_bond m1 b
  have "rxn_node_ft ''bond'' [ex_ABC] [ex_AB, ex_C] short_mappings ex_hb = Inl AssertionError"
    "\<exists>e. create_rxn_graph [ex_ABC] [ex_AB, ex_C] short_mappings ex_hb ex_ntypes = Inl e"
    by auto
  moreover from bond_zero_row_always_appended [OF ex_bond_fts(2) h2, of "[ex_ABC]" ex_mappings ex_ntypes]
    ex_create b
  have "\<exists>m. map_of ex_mappings ''bond'' = Some m \<and> length m = 1 + 1"
    by blast
  ultimately show ?thesis by blast
qed

section \<open>Properties of \<open>mol_graph_to_rxn_graph\<close>\<close>

lemma collect_map_fail:
  "x \<in> set xs \<Longrightarrow> f x = Inl e \<Longrightarrow> \<exists>e'. collect (map f xs) = Inl e'"
  by (induction xs) (auto split: sum.splits)

lemma collect_length: "collect xs = Inr ys \<Longrightarrow> length ys = length xs"
  by (simp add: collect_Inr_conv)

lemma create_rxn_graph_arity:
  "length reactants \<noteq> 1 \<Longrightarrow> create_rxn_graph reactants products mappings hb ntypes = Inl AssertionError"
  by (cases reactants; cases "tl reactants") (auto simp: create_rxn_graph_def)

lemma rxn_graph_of_arity:
  assumes "length (rxn_reactants rxn) \<noteq> 1"
  shows "\<exists>e. rxn_graph_of graphs ntypes rxn = Inl e"
proof (cases "collect (map (py_get graphs) (rxn_reactants rxn))")
  case (Inl e) then show ?thesis by (simp add: rxn_graph_of_def)
next
  case (Inr reactants)
  then have "length reactants \<noteq> 1" using assms collect_length by fastforce
  then show ?thesis using Inr
    by (auto simp: rxn_graph_of_def create_rxn_graph_arity split: sum.splits)
qed

lemma mol_graph_to_rxn_graph_Inr:
  assumes "snd (mol_graph_to_rxn_graph ncuda graph feats reactions) = Inr res"
  shows "\<exists>st w st'. graph_to ncuda [graph] 0 (CUDA 0) = Inr (st, w) \<and> assign_feats feats st w = (st', None)
           \<and> build_rxn_graphs (st' ! w) (map fst feats) reactions = Inr res"
  using assms
  by (auto simp: mol_graph_to_rxn_graph_def split: sum.splits prod.splits option.splits)

lemma build_rxn_graphs_arity:
  assumes "rxn \<in> set reactions" and "length (rxn_reactants rxn) \<noteq> 1"
  shows "\<exists>e. build_rxn_graphs g ntypes reactions = Inl e"
proof -
  from rxn_graph_of_arity [OF assms(2)] obtain e where
    "rxn_graph_of (unbatch g) ntypes rxn = Inl e" by blast
  from collect_map_fail [of rxn reactions "rxn_graph_of (unbatch g) ntypes", OF assms(1) this]
  show ?thesis by (auto simp: build_rxn_graphs_def)
qed

lemma ex_build:
  "snd (mol_graph_to_rxn_graph 1 (ex_batch (CUDA 0)) ex_feats [ex_rxn]) = Inr (ex_rxn_graph, ex_rxn_feats)"
  "snd (mol_graph_to_rxn_graph 1 (ex_batch CPU) ex_feats [ex_rxn]) = Inr (ex_rxn_graph, ex_rxn_feats)"
  by code_simp+

text \<open>
  Claim C5 (arity). \<open>create_rxn_graph\<close> raises \<open>AssertionError\<close> whenever the number of
  reactants is not one, and \<open>mol_graph_to_rxn_graph\<close> fails whenever one of the
  reactions names a number of reactants other than one, more than one in particular:
  no reaction is built from the first reactant alone.
\<close>

theorem more_than_one_reactant_rejected:
  "(length reactants \<noteq> 1 \<longrightarrow>
      create_rxn_graph reactants products mappings hb ntypes = Inl AssertionError)
   \<and> (rxn \<in> set reactions \<and> length (rxn_reactants rxn) \<noteq> 1 \<longrightarrow>
        (\<exists>e. snd (mol_graph_to_rxn_graph ncuda graph feats reactions) = Inl e))"
proof (intro conjI impI)
  assume "length reactants \<noteq> 1"
  then show "create_rxn_graph reactants products mappings hb ntypes = Inl AssertionError"
    by (rule create_rxn_graph_arity)
next
  assume a: "rxn \<in> set reactions \<and> length (rxn_reactants rxn) \<noteq> 1"
  show "\<exists>e. snd (mol_graph_to_rxn_graph ncuda graph feats reactions) = Inl e"
  proof (cases "snd (mol_graph_to_rxn_graph ncuda graph feats reactions)")
    case (Inl e) then show ?thesis by blast
  next
    case (Inr res)
    from mol_graph_to_rxn_graph_Inr [OF this] obtain work' where
      "build_rxn_graphs work' (map fst feats) reactions = Inr res" by blast
    moreover from a have "\<exists>e. build_rxn_graphs work' (map fst feats) reactions = Inl e"
      by (intro build_rxn_graphs_arity [of rxn]) simp_all
    ultimately show ?thesis by auto
  qed
qed

theorem more_than_one_reactant_rejected_witness:
  "create_rxn_graph [ex_ABC, ex_AB] [ex_C] ex_mappings ex_hb ex_ntypes = Inl AssertionError
   \<and> (\<exists>e. snd (mol_graph_to_rxn_graph 1 (ex_batch CPU) ex_feats [ex_rxn, ex_rxn2]) = Inl e)
   \<and> snd (mol_graph_to_rxn_graph 1 (ex_batch CPU) ex_feats [ex_rxn, ex_rxn2]) = Inl AssertionError"
proof -
  have l: "length [ex_ABC, ex_AB] \<noteq> 1" by simp
  have r: "ex_rxn2 \<in> set [ex_rxn, ex_rxn2] \<and> length (rxn_reactants ex_rxn2) \<noteq> 1"
    by (simp add: ex_rxn2_def)
  have v: "snd (mol_graph_to_rxn_graph 1 (ex_batch CPU) ex_feats [ex_rxn, ex_rxn2]) = Inl AssertionError"
    by code_simp
  from more_than_one_reactant_rejected
    [of "[ex_ABC, ex_AB]" "[ex_C]" ex_mappings ex_hb ex_ntypes ex_rxn2 "[ex_rxn, ex_rxn2]" 1 "ex_batch CPU" ex_feats]
    l r v
  show ?thesis by blast
qed

section \<open>The graph of the caller\<close>

lemma graph_to_Inr:
  assumes "graph_to ncuda st r d = Inr (st', w)"
  shows "w = length st" and "take (length st) st' = st" and "length st' = Suc (length st)"
    and "gdevice (st' ! w) = d" and "topologies (st' ! w) = topologies (st ! r)"
    and "batch_num_nodes (st' ! w) = batch_num_nodes (st ! r)"
  using assms by (auto simp: graph_to_def split: if_splits)

lemma graph_to_no_cuda: "graph_to 0 st r (CUDA 0) = Inl DGLError"
  by (simp add: graph_to_def device_available_def)

lemma set_node_ft_frame:
  assumes "set_node_ft g nt ft = Inr g'"
  shows "gdevice g' = gdevice g" "topologies g' = topologies g" "batch_num_nodes g' = batch_num_nodes g"
    "ndata_ft g' = AList.update nt ft (ndata_ft g)" "tdevice ft = gdevice g"
  using assms by (auto simp: set_node_ft_def split: option.splits if_splits)

lemma assign_feats_frame:
  assumes "assign_feats feats st w = (st', err)" and "w < length st"
  shows "length st' = length st \<and> (\<forall>a. a \<noteq> w \<longrightarrow> st' ! a = st ! a)
       \<and> gdevice (st' ! w) = gdevice (st ! w) \<and> topologies (st' ! w) = topologies (st ! w)
       \<and> batch_num_nodes (st' ! w) = batch_num_nodes (st ! w)
       \<and> (\<forall>nt. nt \<notin> fst ` set feats \<longrightarrow> map_of (ndata_ft (st' ! w)) nt = map_of (ndata_ft (st ! w)) nt)"
  using assms
proof (induction feats arbitrary: st)
  case Nil then show ?case by simp
next
  case (Cons a feats)
  obtain nt ft where a: "a = (nt, ft)" by (cases a)
  show ?case
  proof (cases "set_node_ft (st ! w) nt ft")
    case (Inl e)
    then show ?thesis using Cons.prems a by simp
  next
    case (Inr g1)
    then have r: "assign_feats feats (st[w := g1]) w = (st', err)" using Cons.prems a by simp
    have w: "w < length (st[w := g1])" using Cons.prems(2) by simp
    have g1: "(st[w := g1]) ! w = g1" using Cons.prems(2) by simp
    from Cons.IH [OF r w] set_node_ft_frame [OF Inr] a g1 show ?thesis
      by (auto simp: update_conv')
  qed
qed

lemma assign_feats_written:
  assumes "assign_feats feats st w = (st', None)" and "w < length st" and "distinct (map fst feats)"
  shows "\<forall>(nt, t)\<in>set feats. map_of (ndata_ft (st' ! w)) nt = Some t"
  using assms
proof (induction feats arbitrary: st)
  case Nil then show ?case by simp
next
  case (Cons a feats)
  obtain nt ft where a: "a = (nt, ft)" by (cases a)
  from Cons.prems a obtain g1 where g1: "set_node_ft (st ! w) nt ft = Inr g1"
    and rest: "assign_feats feats (st[w := g1]) w = (st', None)"
    by (auto split: sum.splits)
  have w: "w < length (st[w := g1])" using Cons.prems(2) by simp
  have d: "distinct (map fst feats)" "nt \<notin> fst ` set feats" using Cons.prems(3) a by auto
  from assign_feats_frame [OF rest w] d(2)
  have "map_of (ndata_ft (st' ! w)) nt = map_of (ndata_ft g1) nt"
    using Cons.prems(2) by simp
  then have "map_of (ndata_ft (st' ! w)) nt = Some ft"
    using set_node_ft_frame(4) [OF g1] by (simp add: update_conv')
  then show ?case using Cons.IH [OF rest w d(1)] a by auto
qed

lemma assign_feats_devices:
  assumes "assign_feats feats st w = (st', None)" and "w < length st"
    and "\<forall>nt\<in>S. \<forall>t. map_of (ndata_ft (st ! w)) nt = Some t \<longrightarrow> tdevice t = gdevice (st ! w)"
  shows "\<forall>nt\<in>S \<union> fst ` set feats. \<forall>t. map_of (ndata_ft (st' ! w)) nt = Some t \<longrightarrow> tdevice t = gdevice (st ! w)"
  using assms
proof (induction feats arbitrary: st S)
  case Nil then show ?case by simp
next
  case (Cons a feats)
  obtain nt ft where a: "a = (nt, ft)" by (cases a)
  from Cons.prems(1) a obtain g1 where g1: "set_node_ft (st ! w) nt ft = Inr g1"
    and rest: "assign_feats feats (st[w := g1]) w = (st', None)"
    by (auto split: sum.splits)
  have w: "w < length (st[w := g1])" and e: "(st[w := g1]) ! w = g1" using Cons.prems(2) by simp_all
  note f = set_node_ft_frame [OF g1]
  have "\<forall>k\<in>insert nt S. \<forall>t. map_of (ndata_ft ((st[w := g1]) ! w)) k = Some t \<longrightarrow>
      tdevice t = gdevice ((st[w := g1]) ! w)"
    unfolding e using Cons.prems(3) f(1,4,5) by (auto simp: update_conv')
  from Cons.IH [OF rest w this] show ?case using a f(1) e by auto
qed

lemma assign_feats_wrong_device:
  assumes "assign_feats feats st w = (st', err)" and "w < length st"
    and "(nt, t) \<in> set feats" and "tdevice t \<noteq> gdevice (st ! w)"
  shows "err \<noteq> None"
  using assms
proof (induction feats arbitrary: st)
  case Nil then show ?case by simp
next
  case (Cons a feats)
  obtain k ft where a: "a = (k, ft)" by (cases a)
  show ?case
  proof (cases "set_node_ft (st ! w) k ft")
    case (Inl e)
    then show ?thesis using Cons.prems(1) a by auto
  next
    case (Inr g1)
    then have rest: "assign_feats feats (st[w := g1]) w = (st', err)" using Cons.prems(1) a by simp
    have w: "w < length (st[w := g1])" and e: "(st[w := g1]) ! w = g1" using Cons.prems(2) by simp_all
    note f = set_node_ft_frame [OF Inr]
    have "(nt, t) \<noteq> (k, ft)" using f(5) Cons.prems(4) by auto
    then have m: "(nt, t) \<in> set feats" using Cons.prems(3) a by auto
    have "tdevice t \<noteq> gdevice ((st[w := g1]) ! w)" unfolding e using f(1) Cons.prems(4) by simp
    from Cons.IH [OF rest w m this] show ?thesis .
  qed
qed

lemma caller_graph_kept:
  assumes "graph_to ncuda [graph] 0 (CUDA 0) = Inr (st, w)" and "assign_feats feats st w = (st', err)"
  shows "w = 1" and "st' ! 0 = graph" and "w < length st"
proof -
  note g = graph_to_Inr [OF assms(1)]
  show w: "w = 1" using g(1) by simp
  show wl: "w < length st" using g(1,3) by simp
  have "st ! 0 = graph" using g(2) by (metis length_Cons list.size(3) nth_Cons_0 nth_take zero_less_Suc)
  then show "st' ! 0 = graph" using assign_feats_frame [OF assms(2) wl] w by simp
qed

text \<open>
  Claim C8 (frame). The call leaves the graph of the caller as it found it, whether it
  returns or raises, and also when that graph is on \<open>cuda:0\<close>: the working features are
  written to the graph that \<open>graph.to('cuda:0')\<close> has made, an object other than the
  graph of the caller, which holds them once the loop is through. Nothing of the call
  is left on the input, so that a later call on the same graph does what it would have
  done without the first one.
\<close>

theorem input_graph_not_mutated:
  "fst (mol_graph_to_rxn_graph ncuda graph feats reactions) = graph
   \<and> mol_graph_to_rxn_graph ncuda (fst (mol_graph_to_rxn_graph ncuda graph feats reactions))
         feats' reactions'
       = mol_graph_to_rxn_graph ncuda graph feats' reactions'
   \<and> (\<forall>st w st' err.
         graph_to ncuda [graph] 0 (CUDA 0) = Inr (st, w) \<and> assign_feats feats st w = (st', err) \<longrightarrow>
         w \<noteq> 0 \<and> st' ! 0 = graph \<and>
         (err = None \<and> distinct (map fst feats) \<longrightarrow>
            (\<forall>(nt, t)\<in>set feats. map_of (ndata_ft (st' ! w)) nt = Some t)))"
proof -
  have kept: "fst (mol_graph_to_rxn_graph ncuda graph feats reactions) = graph"
  proof (cases "graph_to ncuda [graph] 0 (CUDA 0)")
    case (Inl e) then show ?thesis by (simp add: mol_graph_to_rxn_graph_def)
  next
    case (Inr r)
    obtain st w where r: "r = (st, w)" by (cases r)
    obtain st' err where a: "assign_feats feats st w = (st', err)" by (cases "assign_feats feats st w")
    from caller_graph_kept(2) [OF Inr [unfolded r] a] show ?thesis
      using Inr r a by (simp add: mol_graph_to_rxn_graph_def)
  qed
  have work: "w \<noteq> 0 \<and> st' ! 0 = graph \<and>
      (err = None \<and> distinct (map fst feats) \<longrightarrow>
         (\<forall>(nt, t)\<in>set feats. map_of (ndata_ft (st' ! w)) nt = Some t))"
    if "graph_to ncuda [graph] 0 (CUDA 0) = Inr (st, w) \<and> assign_feats feats st w = (st', err)"
    for st w st' err
  proof -
    from that have g: "graph_to ncuda [graph] 0 (CUDA 0) = Inr (st, w)"
      and a: "assign_feats feats st w = (st', err)" by simp_all
    note k = caller_graph_kept [OF g a]
    have "\<forall>(nt, t)\<in>set feats. map_of (ndata_ft (st' ! w)) nt = Some t"
      if "err = None \<and> distinct (map fst feats)"
      using assign_feats_written [OF _ k(3)] a that by simp
    then show ?thesis using k(1,2) by simp
  qed
  have later: "mol_graph_to_rxn_graph ncuda (fst (mol_graph_to_rxn_graph ncuda graph feats reactions))
         feats' reactions' = mol_graph_to_rxn_graph ncuda graph feats' reactions'"
    using kept by simp
  from work have "\<forall>st w st' err.
         graph_to ncuda [graph] 0 (CUDA 0) = Inr (st, w) \<and> assign_feats feats st w = (st', err) \<longrightarrow>
         w \<noteq> 0 \<and> st' ! 0 = graph \<and>
         (err = None \<and> distinct (map fst feats) \<longrightarrow>
            (\<forall>(nt, t)\<in>set feats. map_of (ndata_ft (st' ! w)) nt = Some t))"
    by blast
  with kept later show ?thesis by (intro conjI)
qed

theorem input_graph_not_mutated_witness:
  "fst (mol_graph_to_rxn_graph 1 (ex_batch (CUDA 0)) ex_feats [ex_rxn]) = ex_batch (CUDA 0)
   \<and> snd (mol_graph_to_rxn_graph 1 (ex_batch (CUDA 0)) ex_feats [ex_rxn]) = Inr (ex_rxn_graph, ex_rxn_feats)
   \<and> (\<exists>st w st'. graph_to 1 [ex_batch (CUDA 0)] 0 (CUDA 0) = Inr (st, w)
         \<and> assign_feats ex_feats st w = (st', None) \<and> w \<noteq> 0 \<and> st' ! 0 = ex_batch (CUDA 0)
         \<and> map_of (ndata_ft (st' ! w)) ''bond'' = Some (ex_tensor 2 [[7, 8], [9, 10], [70, 80], [99, 99]]))"
proof -
  from mol_graph_to_rxn_graph_Inr [OF ex_build(1)] obtain st w st' where
    g: "graph_to 1 [ex_batch (CUDA 0)] 0 (CUDA 0) = Inr (st, w)"
    and a: "assign_feats ex_feats st w = (st', None)" by blast
  have d: "distinct (map fst ex_feats)" by (simp add: ex_feats_def)
  note t = input_graph_not_mutated [of 1 "ex_batch (CUDA 0)" ex_feats "[ex_rxn]" ex_feats "[ex_rxn]"]
  from t g a d have "w \<noteq> 0" "st' ! 0 = ex_batch (CUDA 0)"
    and "\<forall>(nt, t)\<in>set ex_feats. map_of (ndata_ft (st' ! w)) nt = Some t" by blast+
  then have "w \<noteq> 0 \<and> st' ! 0 = ex_batch (CUDA 0)
     \<and> map_of (ndata_ft (st' ! w)) ''bond'' = Some (ex_tensor 2 [[7, 8], [9, 10], [70, 80], [99, 99]])"
    by (simp add: ex_feats_def)
  moreover from t have "fst (mol_graph_to_rxn_graph 1 (ex_batch (CUDA 0)) ex_feats [ex_rxn]) = ex_batch (CUDA 0)"
    by blast
  ultimately show ?thesis using ex_build(1) g a by blast
qed

section \<open>\<open>feature_at_each_layer\<close>\<close>

text \<open>
  Claim C7 (shape of the layer trace). \<open>_split_batched_output\<close> is documented to split
  the tensor into one chunk per graph of the batch, of as many rows as the graph has
  bonds. It does not: \<open>graph.batch_num_nodes("bond")\<close> is a tensor, not a list of
  integers, and \<open>torch.split\<close> refuses it as soon as the batch has more than one
  molecule. On the sample batch of three molecules \<open>feature_at_each_layer\<close> raises
  \<open>TypeError\<close> at the first split, after the embedding, and returns no trace.
\<close>

theorem layer_trace_type_error:
  "feature_at_each_layer ex_net (ex_batch CPU) ex_feats [ex_rxn] () () = Inl TypeError"
  by code_simp

section \<open>Devices\<close>

lemma map_of_map_val:
  "map_of (map (\<lambda>(k, v). (k, f k v)) xs) k = map_option (f k) (map_of xs k)"
  by (induction xs) auto

lemma unbatch_members_props:
  assumes "g \<in> set (unbatch_members d tps bnn fts)"
  shows "gdevice g = d \<and> length (topologies g) = 1 \<and>
         (\<forall>nt t. map_of (ndata_ft g) nt = Some t \<longrightarrow>
            (\<exists>t'. map_of fts nt = Some t' \<and> tdevice t = tdevice t'))"
  using assms
proof (induction tps arbitrary: bnn fts)
  case Nil then show ?case by simp
next
  case (Cons tp tps)
  let ?g0 = "\<lparr>gdevice = d, topologies = [tp],
      batch_num_nodes = map (\<lambda>(nt, cs). (nt, take 1 cs)) bnn,
      ndata_ft = map (\<lambda>(nt, t). (nt, t\<lparr>rws := take (first_count bnn nt) (rws t)\<rparr>)) fts\<rparr>"
  let ?fts' = "map (\<lambda>(nt, t). (nt, t\<lparr>rws := drop (first_count bnn nt) (rws t)\<rparr>)) fts"
  from Cons.prems consider "g = ?g0"
    | "g \<in> set (unbatch_members d tps (map (\<lambda>(nt, cs). (nt, drop 1 cs)) bnn) ?fts')"
    by auto
  then show ?case
  proof cases
    case 1
    then show ?thesis by (auto simp: map_of_map_val)
  next
    case 2
    from Cons.IH [OF 2] have g: "gdevice g = d" "length (topologies g) = 1"
      and f: "\<And>nt t. map_of (ndata_ft g) nt = Some t \<Longrightarrow>
            \<exists>t'. map_of ?fts' nt = Some t' \<and> tdevice t = tdevice t'"
      by blast+
    have "\<exists>t'. map_of fts nt = Some t' \<and> tdevice t = tdevice t'"
      if "map_of (ndata_ft g) nt = Some t" for nt t
    proof -
      from f [OF that] obtain u where u: "map_of ?fts' nt = Some u" "tdevice t = tdevice u" by blast
      from u(1) obtain z where "map_of fts nt = Some z" "u = z\<lparr>rws := drop (first_count bnn nt) (rws z)\<rparr>"
        by (auto simp: map_of_map_val)
      then show ?thesis using u(2) by simp
    qed
    then show ?thesis using g by blast
  qed
qed

lemma unbatch_props:
  assumes "g \<in> set (unbatch w)"
  shows "gdevice g = gdevice w" and "length (topologies g) = 1"
    and "map_of (ndata_ft g) nt = Some t \<Longrightarrow> \<exists>t'. map_of (ndata_ft w) nt = Some t' \<and> tdevice t = tdevice t'"
  using unbatch_members_props [OF assms [unfolded unbatch_def]] by blast+

lemma tensor_sub_device: "tensor_sub p r = Inr t \<Longrightarrow> tdevice t = tdevice r"
  by (auto simp: tensor_sub_def split: if_splits option.splits)

lemma cat_feats_device:
  assumes "cat_feats nt reactants products hb = Inr (rft, pft)"
  shows "\<exists>r0 rest t0. reactants = r0 # rest \<and> node_ft r0 nt = Inr t0 \<and> tdevice rft = tdevice t0"
proof -
  from assms obtain rfts where c: "collect (map (\<lambda>p. node_ft p nt) reactants) = Inr rfts"
    and t: "torch_cat rfts = Inr rft"
    by (auto simp: cat_feats_def split: sum.splits)
  from torch_cat_Inr(2,4) [OF t] obtain t0 ts where r: "rfts = t0 # ts" "tdevice rft = tdevice t0"
    by (cases rfts) auto
  from c r(1) have "map (\<lambda>p. node_ft p nt) reactants = map Inr (t0 # ts)"
    by (simp add: collect_Inr_conv)
  then obtain r0 rest where "reactants = r0 # rest" "node_ft r0 nt = Inr t0"
    by (cases reactants) auto
  then show ?thesis using r(2) by blast
qed

lemma rxn_node_ft_device:
  assumes "rxn_node_ft nt reactants products mappings hb = Inr t"
  shows "\<exists>r0 rest t0. reactants = r0 # rest \<and> node_ft r0 nt = Inr t0 \<and> tdevice t = tdevice t0"
proof -
  from assms obtain rft pft where cf: "cat_feats nt reactants products hb = Inr (rft, pft)"
    by (auto simp: rxn_node_ft_def split: sum.splits)
  have "tdevice t = tdevice rft"
  proof (cases "nt = ''global''")
    case True
    then have "tensor_sub (torch_sum0 pft) (torch_sum0 rft) = Inr t"
      using assms cf by (simp add: rxn_node_ft_def)
    from tensor_sub_device [OF this] show ?thesis by (simp add: torch_sum0_def)
  next
    case False
    then obtain p where "tensor_sub p rft = Inr t"
      using assms cf by (auto simp: rxn_node_ft_def split: option.splits if_splits sum.splits)
    then show ?thesis by (rule tensor_sub_device)
  qed
  then show ?thesis using cat_feats_device [OF cf] by auto
qed

lemma py_get_mem: "py_get xs i = Inr x \<Longrightarrow> x \<in> set xs"
  by (auto simp: py_get_def py_index_def split: option.splits if_splits)

lemma collect_py_get:
  assumes "collect (map (py_get xs) js) = Inr ys"
  shows "set ys \<subseteq> set xs"
proof
  fix y assume "y \<in> set ys"
  moreover have "map (py_get xs) js = map Inr ys" using assms by (simp add: collect_Inr_conv)
  ultimately have "Inr y \<in> set (map (py_get xs) js)" by simp
  then obtain j where "py_get xs j = Inr y" by auto
  then show "y \<in> set xs" by (rule py_get_mem)
qed

lemma rxn_graph_of_Inr:
  assumes "rxn_graph_of graphs ntypes rxn = Inr (g, fts)"
  shows "g \<in> set graphs"
    and "map_of fts nt = Some t \<Longrightarrow> nt \<in> set ntypes \<and> (\<exists>t0. node_ft g nt = Inr t0 \<and> tdevice t = tdevice t0)"
proof -
  from assms obtain reactants products mappings hb where
    r: "collect (map (py_get graphs) (rxn_reactants rxn)) = Inr reactants"
    and c: "create_rxn_graph reactants products mappings hb ntypes = Inr (g, fts)"
    by (auto simp: rxn_graph_of_def split: sum.splits)
  have rs: "reactants = [g]" using create_rxn_graph_Inr(1) [OF c] .
  show "g \<in> set graphs" using collect_py_get [OF r] rs by simp
  show "nt \<in> set ntypes \<and> (\<exists>t0. node_ft g nt = Inr t0 \<and> tdevice t = tdevice t0)"
    if m: "map_of fts nt = Some t"
  proof -
    from c rs have f: "rxn_feats ntypes reactants products mappings hb [] = Inr fts"
      by (auto simp: create_rxn_graph_def split: sum.splits)
    have "nt \<in> set ntypes"
    proof (rule ccontr)
      assume "nt \<notin> set ntypes"
      from rxn_feats_keep [OF f this] m show False by simp
    qed
    moreover from create_rxn_graph_Inr(2) [OF c this] m
    have "rxn_node_ft nt reactants products mappings hb = Inr t" by auto
    from rxn_node_ft_device [OF this] rs
    have "\<exists>t0. node_ft g nt = Inr t0 \<and> tdevice t = tdevice t0" by auto
    ultimately show ?thesis by blast
  qed
qed

lemma batch_Inr:
  assumes "batch gs = Inr bg"
  shows "gs \<noteq> []" and "gdevice bg = gdevice (hd gs)" and "topologies bg = concat (map topologies gs)"
  using assms by (auto simp: batch_def split: list.splits sum.splits)

lemma cat_key_Inr:
  assumes "cat_key err fts nt = Inr (k, t)"
  shows "k = nt \<and> (\<exists>ts. map (\<lambda>ft. map_of ft nt) fts = map Some ts \<and> torch_cat ts = Inr t)"
proof -
  from assms obtain ts where
    c: "collect (map (\<lambda>ft. case map_of ft nt of None \<Rightarrow> Inl err | Some t \<Rightarrow> Inr t) fts) = Inr ts"
    and t: "torch_cat ts = Inr t" and k: "k = nt"
    by (auto simp: cat_key_def split: sum.splits)
  from c have "map (\<lambda>ft. case map_of ft nt of None \<Rightarrow> Inl err | Some t \<Rightarrow> Inr t) fts = map Inr ts"
    by (simp add: collect_Inr_conv)
  then have "map (\<lambda>ft. map_of ft nt) fts = map Some ts"
  proof (induction fts arbitrary: ts)
    case Nil then show ?case by simp
  next
    case (Cons a fts)
    then show ?case by (cases ts) (auto split: option.splits)
  qed
  then show ?thesis using t k by blast
qed

lemma collect_map_mem:
  assumes "collect (map f xs) = Inr ys" and "y \<in> set ys"
  shows "\<exists>x\<in>set xs. f x = Inr y"
proof -
  have "map f xs = map Inr ys" using assms(1) by (simp add: collect_Inr_conv)
  moreover have "Inr y \<in> set (map Inr ys)" using assms(2) by simp
  ultimately have "Inr y \<in> set (map f xs)" by simp
  then show ?thesis by auto
qed

lemma build_rxn_graphs_Inr:
  assumes "build_rxn_graphs w ntypes reactions = Inr (bg, bf)"
  shows "\<exists>res. map (rxn_graph_of (unbatch w) ntypes) reactions = map Inr res
           \<and> batch (map fst res) = Inr bg
           \<and> collect (map (cat_key KeyError (map snd res)) ntypes) = Inr bf"
  using assms by (auto simp: build_rxn_graphs_def collect_Inr_conv split: sum.splits)

lemma built_on_cuda:
  assumes "snd (mol_graph_to_rxn_graph ncuda graph feats reactions) = Inr (bg, bf)"
  shows "gdevice bg = CUDA 0" and "\<forall>(nt, t)\<in>set bf. tdevice t = CUDA 0"
proof -
  from mol_graph_to_rxn_graph_Inr [OF assms] obtain st w st' where
    to: "graph_to ncuda [graph] 0 (CUDA 0) = Inr (st, w)"
    and asg: "assign_feats feats st w = (st', None)"
    and bld: "build_rxn_graphs (st' ! w) (map fst feats) reactions = Inr (bg, bf)"
    by blast
  have wl: "w < length st" using caller_graph_kept(3) [OF to asg] .
  have ds: "gdevice (st ! w) = CUDA 0" using graph_to_Inr(4) [OF to] .
  have dw: "gdevice (st' ! w) = CUDA 0"
    using assign_feats_frame [OF asg wl] ds by simp
  have "\<forall>nt\<in>{} \<union> fst ` set feats. \<forall>t. map_of (ndata_ft (st' ! w)) nt = Some t \<longrightarrow>
      tdevice t = gdevice (st ! w)"
    by (rule assign_feats_devices [OF asg wl]) simp
  then have fw: "tdevice t = CUDA 0"
    if "nt \<in> set (map fst feats)" "map_of (ndata_ft (st' ! w)) nt = Some t" for nt t
    using that ds by auto
  from build_rxn_graphs_Inr [OF bld] obtain res where
    res: "map (rxn_graph_of (unbatch (st' ! w)) (map fst feats)) reactions = map Inr res"
    and b: "batch (map fst res) = Inr bg"
    and c: "collect (map (cat_key KeyError (map snd res)) (map fst feats)) = Inr bf"
    by blast
  from batch_Inr(1) [OF b] obtain r0 rs where r0: "res = r0 # rs" by (cases res) auto
  obtain g0 f0 where gf: "r0 = (g0, f0)" by (cases r0)
  from res r0 gf obtain rxn where
    rx: "rxn_graph_of (unbatch (st' ! w)) (map fst feats) rxn = Inr (g0, f0)"
    by (cases reactions) auto
  have g0: "g0 \<in> set (unbatch (st' ! w))" using rxn_graph_of_Inr(1) [OF rx] .
  show "gdevice bg = CUDA 0"
    using batch_Inr(2) [OF b] r0 gf unbatch_props(1) [OF g0] dw by simp
  show "\<forall>(nt, t)\<in>set bf. tdevice t = CUDA 0"
  proof safe
    fix k t assume "(k, t) \<in> set bf"
    from collect_map_mem [OF c this] obtain nt where nt: "nt \<in> set (map fst feats)"
      and ck: "cat_key KeyError (map snd res) nt = Inr (k, t)" by blast
    from cat_key_Inr [OF ck] obtain ts where
      ts: "map (\<lambda>ft. map_of ft nt) (map snd res) = map Some ts" and tc: "torch_cat ts = Inr t"
      by blast
    from ts r0 gf obtain t1 ts' where t1: "ts = t1 # ts'" "map_of f0 nt = Some t1"
      by (cases ts) auto
    from rxn_graph_of_Inr(2) [OF rx t1(2)] obtain t0 where
      t0: "node_ft g0 nt = Inr t0" "tdevice t1 = tdevice t0" by blast
    from t0(1) have "map_of (ndata_ft g0) nt = Some t0"
      by (auto simp: node_ft_def split: option.splits)
    from unbatch_props(3) [OF g0 this] obtain t' where
      "map_of (ndata_ft (st' ! w)) nt = Some t'" "tdevice t0 = tdevice t'" by blast
    with fw [OF nt] have "tdevice t0 = CUDA 0" by simp
    then show "tdevice t = CUDA 0"
      using torch_cat_Inr(4) [OF tc] t1(1) t0(2) by simp
  qed
qed

lemma builder_needs_cuda:
  "snd (mol_graph_to_rxn_graph 0 graph feats reactions) = Inl DGLError"
  by (simp add: mol_graph_to_rxn_graph_def graph_to_no_cuda)

lemma builder_needs_features_on_cuda:
  assumes "(nt, t) \<in> set feats" and "tdevice t \<noteq> CUDA 0"
  shows "\<exists>e. snd (mol_graph_to_rxn_graph ncuda graph feats reactions) = Inl e"
proof (cases "snd (mol_graph_to_rxn_graph ncuda graph feats reactions)")
  case (Inl e) then show ?thesis by blast
next
  case (Inr res)
  from mol_graph_to_rxn_graph_Inr [OF this] obtain st w st' where
    to: "graph_to ncuda [graph] 0 (CUDA 0) = Inr (st, w)"
    and asg: "assign_feats feats st w = (st', None)" by blast
  have "tdevice t \<noteq> gdevice (st ! w)" using graph_to_Inr(4) [OF to] assms(2) by simp
  from assign_feats_wrong_device [OF asg caller_graph_kept(3) [OF to asg] assms(1) this]
  show ?thesis by simp
qed

lemma feature_before_fc_fails:
  assumes "\<And>f. \<exists>e. snd (mol_graph_to_rxn_graph ncuda graph f reactions) = Inl e"
  shows "\<exists>e. feature_before_fc net ncuda graph feats reactions na nb = Inl e"
proof (cases "embedding net feats")
  case (Inl e) then show ?thesis by (simp add: feature_before_fc_def)
next
  case (Inr f1)
  show ?thesis
  proof (cases "run_gated (gated_layers net) graph f1 na nb")
    case (Inl e) then show ?thesis using Inr by (simp add: feature_before_fc_def)
  next
    case f2: (Inr f2)
    from assms [of f2] obtain e where "snd (mol_graph_to_rxn_graph ncuda graph f2 reactions) = Inl e"
      by blast
    then show ?thesis using Inr f2 by (simp add: feature_before_fc_def)
  qed
qed

lemma forward_fails:
  assumes "\<And>f. \<exists>e. snd (mol_graph_to_rxn_graph ncuda graph f reactions) = Inl e"
  shows "\<exists>e. forward net ncuda graph feats reactions na nb = Inl e"
proof (cases "embedding net feats")
  case (Inl e) then show ?thesis by (simp add: forward_def)
next
  case (Inr f1)
  show ?thesis
  proof (cases "run_gated (gated_layers net) graph f1 na nb")
    case (Inl e) then show ?thesis using Inr by (simp add: forward_def)
  next
    case f2: (Inr f2)
    from assms [of f2] obtain e where "snd (mol_graph_to_rxn_graph ncuda graph f2 reactions) = Inl e"
      by blast
    then show ?thesis using Inr f2 by (simp add: forward_def)
  qed
qed

text \<open>
  Claim C10 (the builder and \<open>cuda:0\<close>), as stated: the reaction graphs are built on
  \<open>cuda:0\<close> wherever the graph and the features are. With a CUDA device at hand and
  the graph and the features on the CPU nothing is built: the graph is moved, the
  features are not, and DGL refuses to store them on the graph.
\<close>

theorem features_not_moved_counterexample:
  "snd (mol_graph_to_rxn_graph 1 (ex_batch CPU) ex_feats_cpu [ex_rxn]) = Inl DGLError
   \<and> forward ex_net 1 (ex_batch CPU) ex_feats_cpu [ex_rxn] () () = Inl DGLError
   \<and> feature_before_fc ex_net 1 (ex_batch CPU) ex_feats_cpu [ex_rxn] () () = Inl DGLError"
  by code_simp

text \<open>
  Claim C10, amended. \<open>mol_graph_to_rxn_graph\<close> begins by moving a copy of the graph to
  \<open>cuda:0\<close>, wherever the graph is. On a machine without a CUDA device the builder
  raises, and so do \<open>forward\<close> and \<open>feature_before_fc\<close>, whatever their layers do.
  The features are not moved: when one of them is not on \<open>cuda:0\<close> the builder raises.
  What the builder returns, a reaction graph and its features, is on \<open>cuda:0\<close>.
\<close>

theorem cuda0_needed_for_graph_and_features:
  "snd (mol_graph_to_rxn_graph 0 graph feats reactions) = Inl DGLError
   \<and> (\<exists>e. forward net 0 graph feats reactions norm_atom norm_bond = Inl e)
   \<and> (\<exists>e. feature_before_fc net 0 graph feats reactions norm_atom norm_bond = Inl e)
   \<and> ((nt, t) \<in> set feats \<and> tdevice t \<noteq> CUDA 0 \<longrightarrow>
        (\<exists>e. snd (mol_graph_to_rxn_graph ncuda graph feats reactions) = Inl e))
   \<and> (\<forall>bg bf. snd (mol_graph_to_rxn_graph ncuda graph feats reactions) = Inr (bg, bf) \<longrightarrow>
        gdevice bg = CUDA 0 \<and> (\<forall>(nt, t)\<in>set bf. tdevice t = CUDA 0))"
proof (intro conjI impI allI)
  show "snd (mol_graph_to_rxn_graph 0 graph feats reactions) = Inl DGLError"
    by (rule builder_needs_cuda)
  have f: "\<exists>e. snd (mol_graph_to_rxn_graph 0 graph f reactions) = Inl e" for f
    using builder_needs_cuda by blast
  show "\<exists>e. forward net 0 graph feats reactions norm_atom norm_bond = Inl e"
    using f by (rule forward_fails)
  show "\<exists>e. feature_before_fc net 0 graph feats reactions norm_atom norm_bond = Inl e"
    using f by (rule feature_before_fc_fails)
next
  assume "(nt, t) \<in> set feats \<and> tdevice t \<noteq> CUDA 0"
  then show "\<exists>e. snd (mol_graph_to_rxn_graph ncuda graph feats reactions) = Inl e"
    using builder_needs_features_on_cuda by blast
next
  fix bg bf assume "snd (mol_graph_to_rxn_graph ncuda graph feats reactions) = Inr (bg, bf)"
  then show "gdevice bg = CUDA 0" "\<forall>(nt, t)\<in>set bf. tdevice t = CUDA 0"
    by (rule built_on_cuda)+
qed

theorem cuda0_needed_for_graph_and_features_witness:
  "snd (mol_graph_to_rxn_graph 0 (ex_batch CPU) ex_feats [ex_rxn]) = Inl DGLError
   \<and> (\<exists>e. forward ex_net 0 (ex_batch CPU) ex_feats [ex_rxn] () () = Inl e)
   \<and> (\<exists>e. feature_before_fc ex_net 0 (ex_batch CPU) ex_feats [ex_rxn] () () = Inl e)
   \<and> (''bond'', (ex_tensor 2 [[7, 8], [9, 10], [70, 80], [99, 99]])\<lparr>tdevice := CPU\<rparr>) \<in> set ex_feats_cpu
   \<and> (\<exists>e. snd (mol_graph_to_rxn_graph 1 (ex_batch CPU) ex_feats_cpu [ex_rxn]) = Inl e)
   \<and> snd (mol_graph_to_rxn_graph 1 (ex_batch CPU) ex_feats [ex_rxn]) = Inr (ex_rxn_graph, ex_rxn_feats)
   \<and> gdevice ex_rxn_graph = CUDA 0
   \<and> list_all (\<lambda>(nt, t). tdevice t = CUDA 0) ex_rxn_feats"
proof -
  have m: "(''bond'', (ex_tensor 2 [[7, 8], [9, 10], [70, 80], [99, 99]])\<lparr>tdevice := CPU\<rparr>) \<in> set ex_feats_cpu"
    and d: "tdevice ((ex_tensor 2 [[7, 8], [9, 10], [70, 80], [99, 99]])\<lparr>tdevice := CPU\<rparr>) \<noteq> CUDA 0"
    by (simp_all add: ex_feats_cpu_def ex_feats_def)
  note a = cuda0_needed_for_graph_and_features
    [of "ex_batch CPU" ex_feats "[ex_rxn]" ex_net "()" "()" "''bond''" _ 1]
  note b = cuda0_needed_for_graph_and_features
    [of "ex_batch CPU" ex_feats_cpu "[ex_rxn]" ex_net "()" "()" "''bond''"
        "(ex_tensor 2 [[7, 8], [9, 10], [70, 80], [99, 99]])\<lparr>tdevice := CPU\<rparr>" 1]
  from b m d have "\<exists>e. snd (mol_graph_to_rxn_graph 1 (ex_batch CPU) ex_feats_cpu [ex_rxn]) = Inl e"
    by blast
  moreover from a ex_build(2) have "gdevice ex_rxn_graph = CUDA 0"
    "\<forall>(nt, t)\<in>set ex_rxn_feats. tdevice t = CUDA 0" by blast+
  moreover from a have "snd (mol_graph_to_rxn_graph 0 (ex_batch CPU) ex_feats [ex_rxn]) = Inl DGLError"
    "\<exists>e. forward ex_net 0 (ex_batch CPU) ex_feats [ex_rxn] () () = Inl e"
    "\<exists>e. feature_before_fc ex_net 0 (ex_batch CPU) ex_feats [ex_rxn] () () = Inl e" by blast+
  ultimately show ?thesis using m ex_build(2) unfolding list_all_iff by blast
qed

section \<open>The rows of the prediction\<close>

subsection \<open>Unbatching what the builder has batched\<close>















subsection \<open>\<open>forward\<close>\<close>

















end
